theory Spec2Isabelle
  imports Main "HOL-Library.AList"
begin

section \<open>Python values\<close>

text \<open>
  The handlers work on parsed JSON bodies. A JSON value is one of Python's
  \<open>None\<close>, \<open>bool\<close>, \<open>int\<close>, \<open>unicode\<close>, \<open>list\<close> and \<open>dict\<close>; a dict is an
  association list read through \<open>map_of\<close> and written through \<open>AList.update\<close>.
  Numbers are integers here: a JSON number with a fraction (a Python \<open>float\<close>) has no
  value in this type.
\<close>

datatype pyval =
    PNone
  | PBool bool
  | PInt int
  | PStr string
  | PList "pyval list"
  | PDict "(string \<times> pyval) list"

type_synonym pydict = "(string \<times> pyval) list"

text \<open>Python truthiness: \<open>bool(v)\<close>.\<close>

fun truthy :: "pyval \<Rightarrow> bool" where
  "truthy PNone = False"
| "truthy (PBool b) = b"
| "truthy (PInt n) = (n \<noteq> 0)"
| "truthy (PStr s) = (s \<noteq> [])"
| "truthy (PList xs) = (xs \<noteq> [])"
| "truthy (PDict kvs) = (kvs \<noteq> [])"

text \<open>\<open>d.get(k, default)\<close>.\<close>

definition py_get :: "pydict \<Rightarrow> string \<Rightarrow> pyval \<Rightarrow> pyval" where
  "py_get d k dflt = (case map_of d k of None \<Rightarrow> dflt | Some v \<Rightarrow> v)"

text \<open>
  \<open>v < n\<close> for an int \<open>n\<close>, as Python 2 orders values of mixed types: \<open>None\<close> is below
  everything, \<open>bool\<close> and \<open>int\<close> compare as numbers, and a number is below every value
  of another type.
\<close>

fun py_lt_int :: "pyval \<Rightarrow> int \<Rightarrow> bool" where
  "py_lt_int PNone n = True"
| "py_lt_int (PBool b) n = ((if b then 1 else 0) < n)"
| "py_lt_int (PInt m) n = (m < n)"
| "py_lt_int (PStr s) n = False"
| "py_lt_int (PList xs) n = False"
| "py_lt_int (PDict kvs) n = False"

section \<open>Replies and reports\<close>

text \<open>
  The text of an error or of a report is kept as what it is built from, not as the
  formatted string: \<open>Unexpected name missing superfluous\<close> is
  \<open>'Unexpected %s%s%s; did you make a typo?'\<close> with the sorted missing and superfluous
  keys, \<open>Bot_sent_task_kill\<close> and \<open>Expected_bot_id\<close> are the two bot mismatch messages,
  \<open>Text s\<close> is a string given as it is.
\<close>

datatype message =
    Text string
  | Unexpected string "string set" "string set"
  | Invalid_dimensions
  | Too_many_dimensions nat
  | Failed_to_update string
  | Bot_sent_task_kill pyval string nat
  | Expected_bot_id string string

text \<open>
  \<open>Send_response v\<close> is a reply with status 200 and body \<open>v\<close>; \<open>Write code s\<close> is the
  text \<open>s\<close> written to \<open>self.response.out\<close> under status \<open>code\<close>; \<open>Abort code msg\<close> is
  \<open>self.abort(code, msg)\<close> or \<open>self.abort_with_error(code, error=msg)\<close>; \<open>Uncaught e\<close>
  is an exception of class \<open>e\<close> that leaves the handler (the framework answers 500).
\<close>

datatype http_response =
    Send_response pyval
  | Write nat string
  | Abort nat message
  | Uncaught string

section \<open>Task creation: priority of normal users\<close>

text \<open>
  \<open>task_scheduler.make_request\<close> is not among the sources: it is a parameter of the
  handlers' models. It is given the dict of the request and the datastore (of any type
  \<open>'s\<close>) and returns its outcome and the datastore it leaves: \<open>Inl\<close> the message of a
  \<open>BadValueError\<close>, \<open>TypeError\<close> or \<open>ValueError\<close>, \<open>Inr\<close> the request as a dict (its
  \<open>to_dict()\<close>), the name of the result summary and its packed key.
\<close>

type_synonym 's make_request =
  "pydict \<Rightarrow> 's \<Rightarrow> (string + (pyval \<times> string \<times> string)) \<times> 's"

text \<open>
  \<open>ClientRequestHandler.post\<close> (handlers_api.py): the body is lowered to priority 100
  when its priority is below 100 and the caller is neither a bot nor an admin, and
  handed to \<open>make_request\<close>. The result is the reply and the datastore.
\<close>

definition ClientRequestHandler_post ::
  "bool \<Rightarrow> 's make_request \<Rightarrow> pydict \<Rightarrow> 's \<Rightarrow> http_response \<times> 's" where
  "ClientRequestHandler_post is_bot_or_admin make_request body ds =
     (let request =
            (if py_lt_int (py_get body ''priority'' (PInt 255)) 100 \<and> \<not> is_bot_or_admin
             then AList.update ''priority'' (PInt 100) body
             else body)
      in case make_request request ds of
           (Inl e, ds) \<Rightarrow> (Abort 400 (Text e), ds)
         | (Inr (request_dict, name, task_id), ds) \<Rightarrow>
             (Send_response (PDict [(''request'', request_dict), (''task_id'', PStr task_id)]),
              ds))"

text \<open>
  \<open>TestRequestHandler.post\<close> (handlers_frontend.py). \<open>convert_test_case\<close> rests on
  \<open>test_request_message.TestCase.FromJSON\<close>, which is not among the sources: its
  outcome on the \<open>request\<close> parameter is a parameter of the model, \<open>Inl\<close> the message of
  a \<open>test_request_message.Error\<close>, \<open>Inr\<close> the dict \<open>request_properties\<close>. The subscript
  \<open>request_properties['priority']\<close> raises \<open>KeyError\<close> on a dict without that key, and
  an exception of \<open>make_request\<close> is not caught here. The reply is the JSON that the
  handler writes.
\<close>

definition TestRequestHandler_post ::
  "bool \<Rightarrow> (string \<Rightarrow> string + pydict) \<Rightarrow> 's make_request \<Rightarrow> string \<Rightarrow> 's
     \<Rightarrow> http_response \<times> 's" where
  "TestRequestHandler_post is_bot_or_admin convert_test_case make_request test_case ds =
     (if test_case = [] then (Abort 400 (Text ''No request parameter found.''), ds)
      else case convert_test_case test_case of
        Inl e \<Rightarrow> (Abort 400 (Text e), ds)
      | Inr request_properties \<Rightarrow>
          (case map_of request_properties ''priority'' of
             None \<Rightarrow> (Uncaught ''KeyError'', ds)
           | Some priority \<Rightarrow>
               (let request_properties =
                      (if py_lt_int priority 100 \<and> \<not> is_bot_or_admin
                       then AList.update ''priority'' (PInt 100) request_properties
                       else request_properties)
                in case make_request request_properties ds of
                     (Inl e, ds) \<Rightarrow> (Uncaught e, ds)
                   | (Inr (request_dict, name, test_key), ds) \<Rightarrow>
                       (Send_response (PDict
                          [(''priority'', py_get request_properties ''priority'' PNone),
                           (''test_case_name'', PStr name),
                           (''test_keys'', PList [PDict
                              [(''config_name'', PStr name),
                               (''instance_index'', PInt 0),
                               (''num_instances'', PInt 1),
                               (''test_key'', PStr test_key)]])]),
                        ds))))"

text \<open>
  To evaluate the handlers on: a datastore that is the list of the requests stored, and
  a \<open>make_request\<close> that refuses a request without a name and stores any other as it is
  given.
\<close>

definition storing_make_request :: "(pydict list) make_request" where
  "storing_make_request request ds =
     (case map_of request ''name'' of
        Some (PStr n) \<Rightarrow> (Inr (PDict request, n, ''5a1''), ds @ [request])
      | _ \<Rightarrow> (Inl ''name is required'', ds))"

definition example_request :: "int \<Rightarrow> pydict" where
  "example_request p = [(''name'', PStr ''t''), (''priority'', PInt p)]"

section \<open>Bot API: checks on the keys of a body\<close>

text \<open>
  \<open>ereporter2.log_request\<close> and \<open>ereporter2.log\<close> alert the admins, \<open>stats.add_entry\<close>,
  \<open>bot_management.tag_bot_seen\<close> and \<open>task_scheduler.bot_reap_task\<close> write to the
  datastore. None of them is among the sources; a handler's model lists its calls to
  them, in order. Calls to \<open>logging\<close> are left out.
\<close>

datatype event =
    Log_request string message
  | Log string pyval
  | Stats_bot_active pyval pydict
  | Tag_bot_seen pyval pyval pyval string pydict pyval pyval pydict
  | Bot_reap_task pydict pyval pyval

text \<open>
  \<open>log_unexpected_subset_keys\<close>: the message, if a key is superfluous or missing, and
  the report made in that case (\<open>source\<close> is the source's argument of that name).
\<close>

definition log_unexpected_subset_keys ::
  "string set \<Rightarrow> string set \<Rightarrow> string list \<Rightarrow> string \<Rightarrow> string
     \<Rightarrow> message option \<times> event list" where
  "log_unexpected_subset_keys expected_keys minimum_keys actual_keys source name =
     (let actual_keys = set actual_keys;
          superfluous = actual_keys - expected_keys;
          missing = minimum_keys - actual_keys
      in if superfluous \<noteq> {} \<or> missing \<noteq> {}
         then (let message = Unexpected name missing superfluous
               in (Some message, [Log_request source message]))
         else (None, []))"

definition log_unexpected_keys ::
  "string set \<Rightarrow> string list \<Rightarrow> string \<Rightarrow> string \<Rightarrow> message option \<times> event list" where
  "log_unexpected_keys expected_keys actual_keys source name =
     log_unexpected_subset_keys expected_keys expected_keys actual_keys source name"

definition log_missing_keys ::
  "string set \<Rightarrow> string list \<Rightarrow> string \<Rightarrow> string \<Rightarrow> message option \<times> event list" where
  "log_missing_keys minimum_keys actual_keys source name =
     (let actual_keys = set actual_keys;
          missing = minimum_keys - actual_keys
      in if missing \<noteq> {}
         then (let message = Unexpected name missing {}
               in (Some message, [Log_request source message]))
         else (None, []))"

section \<open>Bot API: poll\<close>

text \<open>
  The body of a poll is the JSON dict that \<open>parse_body\<close> returns; its values are any
  JSON. Where the handler calls a method that a value does not have, iterates over a
  value that cannot be iterated, or subscripts one that cannot be subscripted, Python
  raises: the model has a branch for each of these.
\<close>

text \<open>
  \<open>frozenset(v)\<close>, as the key checks use it: the strings among the items of \<open>v\<close> (the
  keys of a dict, the items of a list, the characters of a string), or \<open>None\<close> where
  Python raises \<open>TypeError\<close> because \<open>v\<close> is not iterable or an item is not hashable.
  Items that are no strings are in the set too, but equal no key.
\<close>

fun unhashable :: "pyval \<Rightarrow> bool" where
  "unhashable (PList xs) = True"
| "unhashable (PDict d) = True"
| "unhashable v = False"

fun str_items :: "pyval list \<Rightarrow> string list" where
  "str_items [] = []"
| "str_items (PStr s # xs) = s # str_items xs"
| "str_items (x # xs) = str_items xs"

fun frozenset_keys :: "pyval \<Rightarrow> string list option" where
  "frozenset_keys (PDict d) = Some (map fst d)"
| "frozenset_keys (PList xs) = (if list_ex unhashable xs then None else Some (str_items xs))"
| "frozenset_keys (PStr s) = Some (map (\<lambda>c. [c]) s)"
| "frozenset_keys v = None"

text \<open>
  \<open>(v or ['unknown'])[0]\<close>: a false \<open>v\<close> gives \<open>'unknown'\<close>, a list its first item, a
  string its first character; a number cannot be subscripted (\<open>TypeError\<close>) and a
  dict, whose keys are strings, has no key \<open>0\<close> (\<open>KeyError\<close>).
\<close>

fun first_or_unknown :: "pyval \<Rightarrow> string + pyval" where
  "first_or_unknown (PList (x # xs)) = Inr x"
| "first_or_unknown (PStr (c # cs)) = Inr (PStr [c])"
| "first_or_unknown (PInt n) = (if n = 0 then Inr (PStr ''unknown'') else Inl ''TypeError'')"
| "first_or_unknown (PBool b) = (if b then Inl ''TypeError'' else Inr (PStr ''unknown''))"
| "first_or_unknown (PDict d) = (if d = [] then Inr (PStr ''unknown'') else Inl ''KeyError'')"
| "first_or_unknown v = Inr (PStr ''unknown'')"

text \<open>
  \<open>hostname = hostnames[0] if isinstance(hostnames, list) and len(hostnames) == 1
  else hostnames\<close>.
\<close>

fun hostname_of :: "pyval \<Rightarrow> pyval" where
  "hostname_of (PList [x]) = x"
| "hostname_of v = v"

fun is_unicode :: "pyval \<Rightarrow> bool" where
  "is_unicode (PStr s) = True"
| "is_unicode v = False"

text \<open>
  The test on the advertised dimensions: every key is unicode (as every key of a parsed
  JSON dict is) and every value is a list of unicode strings.
\<close>

fun valid_dimension :: "string \<times> pyval \<Rightarrow> bool" where
  "valid_dimension (key, PList values') = list_all is_unicode values'"
| "valid_dimension (key, v) = False"

text \<open>
  A task request as \<open>_cmd_run\<close> reads it (\<open>request.properties\<close>), the outcome of
  \<open>task_scheduler.bot_reap_task\<close>, and what the handler takes from modules that are
  not among the sources: \<open>bot_code.get_bot_version\<close>, the address of the caller,
  \<open>task_to_run.dimensions_powerset_count\<close> and \<open>task_to_run.MAX_DIMENSIONS\<close>,
  \<open>task_scheduler.exponential_backoff\<close>, \<open>bot_management.should_restart_bot\<close>,
  \<open>task_scheduler.bot_reap_task\<close>, \<open>utils.get_versioned_hosturl\<close> and
  \<open>task_result.pack_run_result_key\<close>.
\<close>

record TaskProperties =
  commands :: pyval
  data :: pyval
  env :: pyval
  execution_timeout_secs :: pyval
  io_timeout_secs :: pyval

datatype reap_outcome =
    Reaped TaskProperties nat
  | No_task
  | DeadlineExceededError
  | Raised string

record poll_env =
  get_bot_version :: string
  remote_addr :: string
  dimensions_powerset_count :: "pydict \<Rightarrow> nat"
  MAX_DIMENSIONS :: nat
  exponential_backoff :: "pyval \<Rightarrow> pyval"
  should_restart_bot :: "pyval \<Rightarrow> pydict \<Rightarrow> pydict \<Rightarrow> bool \<times> string"
  bot_reap_task :: "pydict \<Rightarrow> pyval \<Rightarrow> pyval \<Rightarrow> reap_outcome"
  get_versioned_hosturl :: string
  pack_run_result_key :: "nat \<Rightarrow> string"

definition cmd_run :: "poll_env \<Rightarrow> TaskProperties \<Rightarrow> nat \<Rightarrow> pyval \<Rightarrow> pyval" where
  "cmd_run e properties run_result_key bot_id =
     PDict [(''cmd'', PStr ''run''),
            (''manifest'', PDict
               [(''bot_id'', bot_id),
                (''commands'', commands properties),
                (''data'', data properties),
                (''env'', env properties),
                (''host'', PStr (get_versioned_hosturl e)),
                (''hard_timeout'', execution_timeout_secs properties),
                (''io_timeout'', io_timeout_secs properties),
                (''task_id'', PStr (pack_run_result_key e run_result_key))])]"

definition cmd_sleep :: "poll_env \<Rightarrow> pyval \<Rightarrow> pyval \<Rightarrow> pyval" where
  "cmd_sleep e sleep_streak quarantined =
     PDict [(''cmd'', PStr ''sleep''),
            (''duration'', exponential_backoff e sleep_streak),
            (''quarantined'', quarantined)]"

definition cmd_update :: "string \<Rightarrow> pyval" where
  "cmd_update expected_version =
     PDict [(''cmd'', PStr ''update''), (''version'', PStr expected_version)]"

definition cmd_restart :: "string \<Rightarrow> pyval" where
  "cmd_restart message = PDict [(''cmd'', PStr ''restart''), (''message'', PStr message)]"

text \<open>
  The server-side quarantine of \<open>BotPollHandler.post\<close>: the value of \<open>quarantined\<close>
  after the test on the dimensions, and the report made on the way. The test is run
  only on a bot that did not quarantine itself.
\<close>

definition server_quarantine :: "poll_env \<Rightarrow> pydict \<Rightarrow> pyval \<Rightarrow> pyval \<times> event list" where
  "server_quarantine e dimensions quarantined =
     (if \<not> truthy quarantined then
        (if \<not> list_all valid_dimension dimensions
         then (PBool True, [Log_request ''bot'' Invalid_dimensions])
         else (let dimensions_count = dimensions_powerset_count e dimensions
               in if dimensions_count > MAX_DIMENSIONS e
                  then (PBool True, [Log_request ''bot'' (Too_many_dimensions dimensions_count)])
                  else (quarantined, [])))
      else (quarantined, []))"

text \<open>The class constants of \<open>BotPollHandler\<close>.\<close>

definition ACCEPTED_KEYS :: "string set" where
  "ACCEPTED_KEYS = {''attributes'', ''dimensions'', ''state'', ''version''}"

definition EXPECTED_KEYS :: "string set" where
  "EXPECTED_KEYS = {''dimensions'', ''state'', ''version''}"

definition REQUIRED_STATE_KEYS :: "string set" where
  "REQUIRED_STATE_KEYS = {''running_time'', ''sleep_streak''}"

text \<open>
  The lines of \<open>BotPollHandler.post\<close> that come before the test on the version: they
  assign \<open>msg\<close>, \<open>state\<close>, \<open>dimensions\<close>, \<open>bot_id\<close> and \<open>quarantined\<close> (as the bot reports
  it), or raise (\<open>Inl\<close> the class of the exception). The second component lists the
  reports made.
\<close>

record poll_vars =
  var_msg :: "message option"
  var_state :: pyval
  var_dimensions :: pydict
  var_bot_id :: pyval
  var_quarantined :: pyval

definition first_lines :: "pydict \<Rightarrow> (string + poll_vars) \<times> event list" where
  "first_lines request =
     (let (msg, log1) = log_unexpected_subset_keys ACCEPTED_KEYS EXPECTED_KEYS
                          (map fst request) ''bot'' ''keys'';
          state = py_get request ''state'' (PDict [])
      in case frozenset_keys state of
           None \<Rightarrow> (Inl ''TypeError'', log1)
         | Some state_keys \<Rightarrow>
             (let log2 = snd (log_missing_keys REQUIRED_STATE_KEYS state_keys ''bot'' ''state'')
              in case py_get request ''dimensions'' (PDict []) of
                   PDict dimensions \<Rightarrow>
                     (case first_or_unknown (py_get dimensions ''id'' PNone) of
                        Inl exn \<Rightarrow> (Inl exn, log1 @ log2)
                      | Inr bot_id \<Rightarrow>
                          (Inr \<lparr>var_msg = msg, var_state = state,
                                var_dimensions = dimensions, var_bot_id = bot_id,
                                var_quarantined =
                                  py_get dimensions ''quarantined'' (PBool False)\<rparr>,
                           log1 @ log2))
                 | _ \<Rightarrow> (Inl ''AttributeError'', log1 @ log2)))"

text \<open>
  The rest of \<open>BotPollHandler.post\<close>, from \<open>sleep_streak = state.get('sleep_streak', 0)\<close>
  on, for a \<open>state\<close> that is a dict: the reply and the calls made, in order.
\<close>

definition after_version_test ::
  "poll_env \<Rightarrow> pydict \<Rightarrow> poll_vars \<Rightarrow> pydict \<Rightarrow> http_response \<times> event list" where
  "after_version_test e request v state =
     (let sleep_streak = py_get state ''sleep_streak'' (PInt 0);
          dimensions = var_dimensions v;
          bot_id = var_bot_id v
      in if \<not> truthy bot_id
         then (Send_response (cmd_sleep e sleep_streak (PBool True)), [])
         else
          (let (quarantined, log3) = server_quarantine e dimensions (var_quarantined v);
               stats = (if \<not> truthy quarantined
                        then [Stats_bot_active bot_id dimensions] else []);
               hostname = hostname_of (py_get dimensions ''hostname'' PNone);
               version' = py_get request ''version'' (PStr []);
               seen = [Tag_bot_seen bot_id hostname (py_get state ''ip'' PNone)
                         (remote_addr e) dimensions version' quarantined state];
               calls = log3 @ stats @ seen
           in if truthy quarantined
              then (Send_response (cmd_sleep e sleep_streak quarantined), calls)
              else
               (let (needs_restart, restart_message) =
                      should_restart_bot e bot_id request state
                in if needs_restart
                   then (Send_response (cmd_restart restart_message), calls)
                   else
                    (let calls = calls @ [Bot_reap_task dimensions bot_id version']
                     in case bot_reap_task e dimensions bot_id version' of
                          No_task \<Rightarrow>
                            (Send_response (cmd_sleep e sleep_streak (PBool False)), calls)
                        | Reaped properties run_result_key \<Rightarrow>
                            (Send_response (cmd_run e properties run_result_key bot_id), calls)
                        | DeadlineExceededError \<Rightarrow> (Abort 500 (Text ''Deadline''), calls)
                        | Raised exn \<Rightarrow> (Uncaught exn, calls)))))"

text \<open>
  \<open>BotPollHandler.post\<close> (handlers_api.py): the reply and the calls made, in order.
  \<open>state.get\<close> raises \<open>AttributeError\<close> on a \<open>state\<close> that is a list or a string.
\<close>

definition BotPollHandler_post :: "poll_env \<Rightarrow> pydict \<Rightarrow> http_response \<times> event list" where
  "BotPollHandler_post e request =
     (case first_lines request of
        (Inl exn, calls) \<Rightarrow> (Uncaught exn, calls)
      | (Inr v, calls) \<Rightarrow>
          (let expected_version = get_bot_version e
           in if var_msg v \<noteq> None \<or> py_get request ''version'' PNone \<noteq> PStr expected_version
              then (Send_response (cmd_update expected_version), calls)
              else case var_state v of
                     PDict state \<Rightarrow>
                       (let (reply, calls') = after_version_test e request v state
                        in (reply, calls @ calls'))
                   | _ \<Rightarrow> (Uncaught ''AttributeError'', calls)))"

text \<open>The command of a reply: the value of \<open>cmd\<close> in the body sent, if any.\<close>

fun cmd_of :: "http_response \<Rightarrow> pyval option" where
  "cmd_of (Send_response (PDict out)) = map_of out ''cmd''"
| "cmd_of r = None"

text \<open>
  Names for what the handler decides on after the test on the version: the value of
  \<open>quarantined\<close> after the server's own test, the outcome of \<open>should_restart_bot\<close> and
  the outcome of \<open>bot_reap_task\<close>, each on the arguments the handler passes.
\<close>

definition poll_quarantined :: "poll_env \<Rightarrow> poll_vars \<Rightarrow> pyval" where
  "poll_quarantined e v = fst (server_quarantine e (var_dimensions v) (var_quarantined v))"

definition poll_needs_restart :: "poll_env \<Rightarrow> pydict \<Rightarrow> poll_vars \<Rightarrow> pydict \<Rightarrow> bool \<times> string" where
  "poll_needs_restart e request v state = should_restart_bot e (var_bot_id v) request state"

definition poll_reap :: "poll_env \<Rightarrow> pydict \<Rightarrow> poll_vars \<Rightarrow> reap_outcome" where
  "poll_reap e request v =
     bot_reap_task e (var_dimensions v) (var_bot_id v) (py_get request ''version'' (PStr []))"

text \<open>The calls that only report, and the call that reserves a task.\<close>

fun is_report :: "event \<Rightarrow> bool" where
  "is_report (Log_request source m) = True"
| "is_report (Log source m) = True"
| "is_report ev = False"

fun is_reap :: "event \<Rightarrow> bool" where
  "is_reap (Bot_reap_task d b v) = True"
| "is_reap ev = False"

subsection \<open>Polls to evaluate the handler on\<close>

text \<open>
  A server whose bot code has version \<open>abc123\<close>, where a dimension with \<open>n\<close> values counts
  for \<open>n + 1\<close> combinations and at most 8 combinations are accepted, which never asks for
  a restart and whose scheduler answers \<open>reaped\<close>; a task with one command and a task
  with no command at all, as a request to shut the bot down would be; and the poll of a
  bot with dimensions \<open>d\<close>, state \<open>st\<close> and version \<open>ver\<close>, with the further keys
  \<open>others\<close> in the body.
\<close>

definition example_properties :: TaskProperties where
  "example_properties =
     \<lparr>commands = PList [PList [PStr ''python'', PStr ''run.py'']], data = PList [],
      env = PDict [], execution_timeout_secs = PInt 3600, io_timeout_secs = PInt 1200\<rparr>"

definition shutdown_properties :: TaskProperties where
  "shutdown_properties =
     \<lparr>commands = PList [], data = PList [], env = PDict [],
      execution_timeout_secs = PInt 0, io_timeout_secs = PInt 0\<rparr>"

fun values_count :: "string \<times> pyval \<Rightarrow> nat" where
  "values_count (key, PList xs) = length xs + 1"
| "values_count (key, v) = 2"

definition example_env :: "reap_outcome \<Rightarrow> poll_env" where
  "example_env reaped =
     \<lparr>get_bot_version = ''abc123'', remote_addr = ''192.168.0.7'',
      dimensions_powerset_count = (\<lambda>d. prod_list (map values_count d)),
      MAX_DIMENSIONS = 8,
      exponential_backoff = (\<lambda>sleep_streak. PInt 2),
      should_restart_bot = (\<lambda>bot_id request state. (False, [])),
      bot_reap_task = (\<lambda>dimensions bot_id version. reaped),
      get_versioned_hosturl = ''https://1-dot-swarming.example.com'',
      pack_run_result_key = (\<lambda>key. ''1d69b9f088008811'')\<rparr>"

definition example_state :: pyval where
  "example_state = PDict [(''running_time'', PInt 120), (''sleep_streak'', PInt 3)]"

definition example_poll :: "pyval \<Rightarrow> pyval \<Rightarrow> string \<Rightarrow> pydict \<Rightarrow> pydict" where
  "example_poll d st ver others =
     [(''dimensions'', d), (''state'', st), (''version'', PStr ver)] @ others"

definition one_dimension :: pyval where
  "one_dimension = PDict [(''id'', PList [PStr ''bot1''])]"

definition no_id_dimensions :: pyval where
  "no_id_dimensions = PDict [(''os'', PList [PStr ''Linux''])]"

definition many_dimensions :: pyval where
  "many_dimensions =
     PDict [(''id'', PList [PStr ''bot1'']),
            (''os'', PList [PStr ''Linux'', PStr ''Ubuntu'', PStr ''Ubuntu-14.04'']),
            (''cpu'', PList [PStr ''x86'', PStr ''x86-64''])]"


section \<open>The datastore\<close>

text \<open>
  Modelled from the spec: the entity classes (\<open>task_request.py\<close>, \<open>task_to_run.py\<close>,
  \<open>task_result.py\<close>) are not among the sources. The fields are those of the spec's data
  model that the handlers read or write; a timestamp is a number, a key is a number, and
  each kind of entity has its own keys.
\<close>

datatype State = PENDING | RUNNING | COMPLETED | TIMED_OUT | BOT_DIED | EXPIRED | CANCELED

record TaskRequest =
  name :: string
  user :: string
  priority :: int
  properties :: TaskProperties

record TaskToRun =
  queue_number :: "int option"
  reaped_ts :: "nat option"

record TaskResultSummary =
  state :: State
  failure :: bool
  bot_id :: "string option"
  try_number :: nat
  started_ts :: "nat option"
  completed_ts :: "nat option"
  abandoned_ts :: "nat option"
  modified_ts :: nat
  exit_codes :: "int list"

record TaskRunResult =
  run_state :: State
  run_failure :: bool
  run_bot_id :: string
  run_started_ts :: nat
  run_completed_ts :: "nat option"
  last_update_ts :: nat
  run_exit_codes :: "int list"

record datastore =
  requests :: "nat \<rightharpoonup> TaskRequest"
  tasks_to_run :: "nat \<rightharpoonup> TaskToRun"
  summaries :: "nat \<rightharpoonup> TaskResultSummary"
  run_results :: "nat \<rightharpoonup> TaskRunResult"
  output_chunks :: "nat \<times> nat \<times> nat \<rightharpoonup> string"
  stored_results :: "nat \<rightharpoonup> string"

text \<open>The terminal states of the lifecycle.\<close>

fun terminal :: "State \<Rightarrow> bool" where
  "terminal PENDING = False"
| "terminal RUNNING = False"
| "terminal s = True"

section \<open>Cancelling a task\<close>

text \<open>
  Modelled from the spec: \<open>task_to_run.abort_task_to_run\<close> is not among the sources.
  The spec has it set \<open>reaped_ts = now\<close> without claiming, idempotently.
\<close>

definition abort_task_to_run :: "nat \<Rightarrow> TaskToRun \<Rightarrow> TaskToRun" where
  "abort_task_to_run now task = task\<lparr>reaped_ts := Some now\<rparr>"

text \<open>
  The functions on keys that \<open>CancelHandler.post\<close> calls and that are not among the
  sources: \<open>task_scheduler.unpack_result_summary_key\<close> (\<open>None\<close> where it raises
  \<open>ValueError\<close>), \<open>task_result.result_summary_key_to_request_key\<close> and
  \<open>task_to_run.request_to_task_to_run_key\<close>.
\<close>

record cancel_env =
  unpack_result_summary_key :: "string \<Rightarrow> nat option"
  result_summary_key_to_request_key :: "nat \<Rightarrow> nat"
  request_to_task_to_run_key :: "TaskRequest \<Rightarrow> nat"

text \<open>
  \<open>CancelHandler.post\<close> (handlers_frontend.py) on the parameter \<open>r\<close> at time \<open>now\<close>:
  the reply and the datastore it leaves. A \<open>get()\<close> that finds no entity returns
  \<open>None\<close>, and the call or attribute access on it raises.
\<close>

definition CancelHandler_post ::
  "cancel_env \<Rightarrow> nat \<Rightarrow> string \<Rightarrow> datastore \<Rightarrow> http_response \<times> datastore" where
  "CancelHandler_post e now runner_key ds =
     (case unpack_result_summary_key e runner_key of
        None \<Rightarrow> (Write 400 ''Unable to cancel runner'', ds)
      | Some result_summary_key \<Rightarrow>
          (let request_key = result_summary_key_to_request_key e result_summary_key
           in case requests ds request_key of
                None \<Rightarrow> (Uncaught ''AttributeError'', ds)
              | Some request \<Rightarrow>
                  (let task_key = request_to_task_to_run_key e request
                   in case tasks_to_run ds task_key of
                        None \<Rightarrow> (Uncaught ''AttributeError'', ds)
                      | Some task \<Rightarrow>
                          (let ds = ds\<lparr>tasks_to_run :=
                                      (tasks_to_run ds)(task_key \<mapsto> abort_task_to_run now task)\<rparr>
                           in case summaries ds result_summary_key of
                                None \<Rightarrow> (Uncaught ''AttributeError'', ds)
                              | Some result_summary \<Rightarrow>
                                  (let result_summary =
                                         result_summary\<lparr>state := CANCELED,
                                                         abandoned_ts := Some now\<rparr>
                                   in (Write 200 ''Runner canceled.'',
                                       ds\<lparr>summaries := (summaries ds)
                                            (result_summary_key \<mapsto> result_summary)\<rparr>))))))"

section \<open>Bot API: task update\<close>

text \<open>
  What \<open>task_scheduler.bot_update_task\<close> hands to the handler to put: run results,
  result summaries and output chunks, each with its key.
\<close>

datatype entity =
    Put_run_result nat TaskRunResult
  | Put_result_summary nat TaskResultSummary
  | Put_output_chunk "nat \<times> nat \<times> nat" string

fun put :: "entity \<Rightarrow> datastore \<Rightarrow> datastore" where
  "put (Put_run_result k r) ds = ds\<lparr>run_results := (run_results ds)(k \<mapsto> r)\<rparr>"
| "put (Put_result_summary k r) ds = ds\<lparr>summaries := (summaries ds)(k \<mapsto> r)\<rparr>"
| "put (Put_output_chunk k c) ds = ds\<lparr>output_chunks := (output_chunks ds)(k \<mapsto> c)\<rparr>"

text \<open>\<open>ndb.put_multi(entities)\<close>.\<close>

definition put_multi :: "entity list \<Rightarrow> datastore \<Rightarrow> datastore" where
  "put_multi entities ds = fold put entities ds"

text \<open>
  \<open>ndb.transaction(callback, retries=n)\<close> belongs to the datastore library: it runs the
  callback and commits what it wrote as a whole, again after a failed commit, for
  \<open>1 + n\<close> attempts at most, and raises \<open>TransactionFailedError\<close> when none committed.
  Whether the attempt number \<open>i\<close> commits is given by \<open>commits i\<close>. The result is the
  datastore after a commit (\<open>None\<close> when the error is raised) and the number of attempts.
\<close>

fun run_attempts :: "(nat \<Rightarrow> bool) \<Rightarrow> nat \<Rightarrow> nat \<Rightarrow> nat option" where
  "run_attempts commits i 0 = None"
| "run_attempts commits i (Suc n) =
     (if commits i then Some i else run_attempts commits (Suc i) n)"

definition ndb_transaction ::
  "(nat \<Rightarrow> bool) \<Rightarrow> nat \<Rightarrow> (datastore \<Rightarrow> datastore) \<Rightarrow> datastore
     \<Rightarrow> datastore option \<times> nat" where
  "ndb_transaction commits retries callback ds =
     (case run_attempts commits 0 (1 + retries) of
        None \<Rightarrow> (None, 1 + retries)
      | Some i \<Rightarrow> (Some (callback ds), i + 1))"

text \<open>
  What \<open>BotTaskUpdateHandler.post\<close> takes from modules that are not among the sources:
  \<open>task_result.unpack_run_result_key\<close> (\<open>None\<close> where it raises \<open>ValueError\<close>) and
  \<open>task_scheduler.bot_update_task\<close>, the context manager that checks the update
  against the datastore and yields the entities to put, or raises \<open>ValueError\<close> with a
  message (\<open>Inl\<close>). Its arguments are the key, \<open>bot_id\<close>, \<open>command_index\<close>, \<open>output\<close>,
  \<open>output_chunk_start\<close>, \<open>exit_code\<close> and \<open>duration\<close>. What the context manager does
  when the \<open>with\<close> block is left is not known from the sources and has no part here.
\<close>

record update_env =
  unpack_run_result_key :: "pyval \<Rightarrow> nat option"
  bot_update_task ::
    "nat \<Rightarrow> pyval \<Rightarrow> pyval \<Rightarrow> pyval \<Rightarrow> pyval \<Rightarrow> pyval \<Rightarrow> pyval \<Rightarrow> datastore
       \<Rightarrow> string + entity list"

datatype db_call =
    Report message
  | Transaction nat bool

definition UPDATE_ACCEPTED_KEYS :: "string set" where
  "UPDATE_ACCEPTED_KEYS =
     {''command_index'', ''duration'', ''exit_code'', ''hard_timeout'', ''id'',
      ''io_timeout'', ''output'', ''output_chunk_start'', ''task_id''}"

definition UPDATE_REQUIRED_KEYS :: "string set" where
  "UPDATE_REQUIRED_KEYS = {''command_index'', ''id'', ''task_id''}"

text \<open>
  \<open>output.encode('utf-8', 'replace')\<close>: the model's strings are byte strings already, so
  a string is kept; a value with no \<open>encode\<close> raises \<open>AttributeError\<close> (\<open>None\<close> here).
\<close>

fun encode_output :: "pyval \<Rightarrow> pyval option" where
  "encode_output PNone = Some PNone"
| "encode_output (PStr s) = Some (PStr s)"
| "encode_output v = None"

text \<open>
  \<open>BotTaskUpdateHandler.post\<close> (handlers_api.py), up to the call of
  \<open>bot_update_task\<close>: \<open>Inl\<close> the reply when the handler ends before the call, \<open>Inr\<close> the
  outcome of the call.
\<close>

definition update_call ::
  "update_env \<Rightarrow> pydict \<Rightarrow> datastore
     \<Rightarrow> (http_response \<times> message list) + (string + entity list)" where
  "update_call e request ds =
     (case fst (log_unexpected_subset_keys UPDATE_ACCEPTED_KEYS UPDATE_REQUIRED_KEYS
                  (map fst request) ''bot'' ''keys'') of
        Some msg \<Rightarrow> Inl (Abort 400 msg, [msg])
      | None \<Rightarrow>
          (let bot_id = py_get request ''id'' PNone;
               command_index = py_get request ''command_index'' PNone;
               task_id = py_get request ''task_id'' PNone;
               duration = py_get request ''duration'' PNone;
               exit_code = py_get request ''exit_code'' PNone;
               output = py_get request ''output'' PNone;
               output_chunk_start = py_get request ''output_chunk_start'' PNone
           in case unpack_run_result_key e task_id of
                None \<Rightarrow> Inl (Uncaught ''ValueError'', [])
              | Some run_result_key \<Rightarrow>
                  (case encode_output output of
                     None \<Rightarrow> Inl (Uncaught ''AttributeError'', [])
                   | Some output \<Rightarrow>
                       Inr (bot_update_task e run_result_key bot_id command_index output
                              output_chunk_start exit_code duration ds))))"

text \<open>
  The whole of \<open>BotTaskUpdateHandler.post\<close>: the reply, the reports and the
  transaction made (with its number of attempts and whether it committed), and the
  datastore the handler leaves.
\<close>

definition BotTaskUpdateHandler_post ::
  "update_env \<Rightarrow> (nat \<Rightarrow> bool) \<Rightarrow> pydict \<Rightarrow> datastore
     \<Rightarrow> http_response \<times> db_call list \<times> datastore" where
  "BotTaskUpdateHandler_post e commits request ds =
     (case update_call e request ds of
        Inl (reply, reports) \<Rightarrow> (reply, map Report reports, ds)
      | Inr (Inl err) \<Rightarrow> (Abort 400 (Text err), [Report (Failed_to_update err)], ds)
      | Inr (Inr entities) \<Rightarrow>
          (case ndb_transaction commits 1 (put_multi entities) ds of
             (None, attempts) \<Rightarrow>
               (Uncaught ''TransactionFailedError'', [Transaction attempts False], ds)
           | (Some ds', attempts) \<Rightarrow>
               (Send_response (PDict [(''ok'', PBool True)]), [Transaction attempts True], ds')))"

section \<open>Bot API: task error, and the legacy result handler\<close>

text \<open>
  \<open>task_scheduler.bot_kill_task\<close> is not among the sources: what it does to the
  datastore, given the key and the run result, is a parameter.
\<close>

record error_env =
  error_unpack_run_result_key :: "pyval \<Rightarrow> nat option"
  bot_kill_task :: "nat \<Rightarrow> TaskRunResult \<Rightarrow> datastore \<Rightarrow> datastore"

definition ERROR_EXPECTED_KEYS :: "string set" where
  "ERROR_EXPECTED_KEYS = {''id'', ''message'', ''task_id''}"

text \<open>
  \<open>BotTaskErrorHandler.post\<close> (handlers_api.py): the reply, the reports
  (\<open>ereporter2.log\<close> with the bot's message comes before the check of the keys), and
  the datastore the handler leaves.
\<close>

definition BotTaskErrorHandler_post ::
  "error_env \<Rightarrow> pydict \<Rightarrow> datastore \<Rightarrow> http_response \<times> event list \<times> datastore" where
  "BotTaskErrorHandler_post e request ds =
     (let (msg, log1) = log_unexpected_keys ERROR_EXPECTED_KEYS (map fst request) ''bot'' ''keys'';
          calls = log1 @ [Log ''bot'' (py_get request ''message'' (PStr ''unknown''))]
      in case msg of
           Some msg \<Rightarrow> (Abort 400 msg, calls, ds)
         | None \<Rightarrow>
             (let bot_id = py_get request ''id'' PNone;
                  task_id = py_get request ''task_id'' PNone
              in case error_unpack_run_result_key e task_id of
                   None \<Rightarrow> (Uncaught ''ValueError'', calls, ds)
                 | Some key \<Rightarrow>
                     (case run_results ds key of
                        None \<Rightarrow> (Uncaught ''AttributeError'', calls, ds)
                      | Some run_result \<Rightarrow>
                          if PStr (run_bot_id run_result) \<noteq> bot_id
                          then (Abort 400 (Bot_sent_task_kill bot_id (run_bot_id run_result) key),
                                calls, ds)
                          else (Send_response (PDict []), calls,
                                bot_kill_task e key run_result ds))))"

text \<open>
  What \<open>ResultHandler.post\<close> takes from outside the sources: the legacy
  \<open>task_scheduler.unpack_run_result_key\<close>, \<open>urllib.unquote_plus\<close>, the exit codes read
  off the parameter \<open>x\<close> (\<open>None\<close> where \<open>int\<close> raises \<open>ValueError\<close>),
  \<open>result_helper.StoreResults\<close>, which stores the output and returns its key, and the
  legacy \<open>task_scheduler.bot_update_task\<close> (\<open>Inl\<close> where it raises \<open>ValueError\<close>).
\<close>

record result_env =
  legacy_unpack_run_result_key :: "string \<Rightarrow> nat option"
  unquote_plus :: "string \<Rightarrow> string"
  parse_exit_codes :: "string \<Rightarrow> int list option"
  StoreResults :: "string \<Rightarrow> datastore \<Rightarrow> nat \<times> datastore"
  legacy_bot_update_task ::
    "nat \<Rightarrow> int list \<Rightarrow> nat \<Rightarrow> string \<Rightarrow> datastore \<Rightarrow> string + datastore"

text \<open>
  \<open>ResultHandler.post\<close> (handlers_frontend.py) on the parameters \<open>r\<close>, \<open>id\<close>, \<open>x\<close> and
  the result string: the reply and the datastore the handler leaves.
\<close>

definition ResultHandler_post ::
  "result_env \<Rightarrow> string \<Rightarrow> string \<Rightarrow> string \<Rightarrow> string \<Rightarrow> datastore
     \<Rightarrow> http_response \<times> datastore" where
  "ResultHandler_post e packed id' x result_string ds =
     (case legacy_unpack_run_result_key e packed of
        None \<Rightarrow> (Uncaught ''ValueError'', ds)
      | Some run_result_key \<Rightarrow>
          (let bot_id = unquote_plus e id'
           in case run_results ds run_result_key of
                None \<Rightarrow> (Uncaught ''AttributeError'', ds)
              | Some run_result \<Rightarrow>
                  if bot_id \<noteq> run_bot_id run_result
                  then (Abort 404 (Expected_bot_id (run_bot_id run_result) bot_id), ds)
                  else
                   (let exit_codes = parse_exit_codes e (unquote_plus e x);
                        (results_key, ds) = StoreResults e (unquote_plus e result_string) ds
                    in case exit_codes of
                         None \<Rightarrow> (Uncaught ''ValueError'', ds)
                       | Some codes \<Rightarrow>
                           (case legacy_bot_update_task e run_result_key codes results_key
                                   bot_id ds of
                              Inl err \<Rightarrow> (Uncaught ''ValueError'', ds)
                            | Inr ds \<Rightarrow>
                                (Write 200 ''Successfully update the runner results.'', ds)))))"

text \<open>The calls of \<open>BotTaskUpdateHandler.post\<close> that are transactions.\<close>

fun is_transaction :: "db_call \<Rightarrow> bool" where
  "is_transaction (Transaction attempts committed) = True"
| "is_transaction c = False"

section \<open>Entities and requests to evaluate the handlers on\<close>

text \<open>
  A datastore with one request (key 16), its task to run and result summary, and one
  run result (key 17) owned by \<open>bot1\<close>; the functions on keys of a server where the
  packed key \<open>10\<close> names the summary and \<open>11\<close> the run result; a scheduler that rejects
  an update from another bot than the owner and otherwise yields the run result and
  one output chunk to put.
\<close>

definition example_cancel_env :: cancel_env where
  "example_cancel_env =
     \<lparr>unpack_result_summary_key = (\<lambda>r. if r = ''10'' then Some 16 else None),
      result_summary_key_to_request_key = (\<lambda>k. k),
      request_to_task_to_run_key = (\<lambda>request. 16)\<rparr>"

definition completed_summary :: TaskResultSummary where
  "completed_summary =
     \<lparr>state = COMPLETED, failure = False, bot_id = Some ''bot1'', try_number = 1,
      started_ts = Some 100, completed_ts = Some 160, abandoned_ts = None,
      modified_ts = 160, exit_codes = [0]\<rparr>"

definition example_run_result :: TaskRunResult where
  "example_run_result =
     \<lparr>run_state = RUNNING, run_failure = False, run_bot_id = ''bot1'', run_started_ts = 100,
      run_completed_ts = None, last_update_ts = 130, run_exit_codes = []\<rparr>"

definition example_datastore :: "TaskResultSummary \<Rightarrow> datastore" where
  "example_datastore summary =
     \<lparr>requests = [16 \<mapsto> \<lparr>name = ''task'', user = ''joe'', priority = 100,
                              properties = example_properties\<rparr>],
      tasks_to_run = [16 \<mapsto> \<lparr>queue_number = None, reaped_ts = Some 100\<rparr>],
      summaries = [16 \<mapsto> summary],
      run_results = [17 \<mapsto> example_run_result],
      output_chunks = Map.empty,
      stored_results = Map.empty\<rparr>"

definition example_bot_update_task ::
  "nat \<Rightarrow> pyval \<Rightarrow> pyval \<Rightarrow> pyval \<Rightarrow> pyval \<Rightarrow> pyval \<Rightarrow> pyval \<Rightarrow> datastore
     \<Rightarrow> string + entity list" where
  "example_bot_update_task key caller command_index output output_chunk_start exit_code
       duration ds =
     (case run_results ds key of
        None \<Rightarrow> Inl ''No such task''
      | Some run_result \<Rightarrow>
          if PStr (run_bot_id run_result) \<noteq> caller then Inl ''Bot id mismatch''
          else Inr [Put_run_result key (run_result\<lparr>last_update_ts := 140\<rparr>),
                    Put_output_chunk (key, 0, 0) ''hi''])"

definition example_update_env :: update_env where
  "example_update_env =
     \<lparr>unpack_run_result_key = (\<lambda>task_id. if task_id = PStr ''11'' then Some 17 else None),
      bot_update_task = example_bot_update_task\<rparr>"

definition example_update :: "string \<Rightarrow> pydict" where
  "example_update caller =
     [(''id'', PStr caller), (''task_id'', PStr ''11''), (''command_index'', PInt 0),
      (''output'', PStr ''hi''), (''output_chunk_start'', PInt 0)]"

definition example_error_env :: error_env where
  "example_error_env =
     \<lparr>error_unpack_run_result_key = (\<lambda>task_id. if task_id = PStr ''11'' then Some 17 else None),
      bot_kill_task = (\<lambda>key run_result ds.
        ds\<lparr>run_results := (run_results ds)(key \<mapsto> run_result\<lparr>run_state := BOT_DIED\<rparr>)\<rparr>)\<rparr>"

definition example_result_env :: result_env where
  "example_result_env =
     \<lparr>legacy_unpack_run_result_key = (\<lambda>packed. if packed = ''11'' then Some 17 else None),
      unquote_plus = (\<lambda>s. s),
      parse_exit_codes = (\<lambda>x. if x = ''0'' then Some [0] else None),
      StoreResults = (\<lambda>result_string ds.
        (1, ds\<lparr>stored_results := (stored_results ds)(1 \<mapsto> result_string)\<rparr>)),
      legacy_bot_update_task = (\<lambda>key codes results_key caller ds. Inr ds)\<rparr>"

definition example_task_error :: "string \<Rightarrow> pydict" where
  "example_task_error caller =
     [(''id'', PStr caller), (''task_id'', PStr ''11''), (''message'', PStr ''for the worst'')]"

section \<open>The bot process (bot_main.py)\<close>

text \<open>
  The names of bot_main.py are kept without their leading underscore. The module
  global \<open>_QUARANTINED\<close> is \<open>None\<close> or a string; \<open>set_quarantined_log\<close> lists the
  reasons that \<open>_set_quarantined\<close> was called with, in order, as its \<open>logging.error\<close>
  line records them; what the bot posts to the server and how long it waits is listed
  in \<open>actions\<close>, in order. \<open>botobj.post_error\<close> (api/bot.py) is not among the sources:
  it is a post that returns, as the handlers that call it and carry on take it to be.
\<close>

datatype action =
    Post_error string
  | Post_event string string
  | Post_task_update pyval
  | Wait pyval

record bot_process =
  QUARANTINED :: "string option"
  set_quarantined_log :: "string list"
  actions :: "action list"

text \<open>
  The outcome of a hook of bot_config.py: the value it returns, or the text of the
  exception it throws.
\<close>

datatype hook_outcome = Hook_returns pyval | Hook_throws string

text \<open>
  What the bot takes from its host and from modules that are not among the sources:
  \<open>'%r' % v\<close>, \<open>traceback.format_exc()[-2048:]\<close>, \<open>os_utilities.get_dimensions()\<close> and
  \<open>os_utilities.get_hostname_short()\<close> (\<open>Inl\<close> the text of an exception),
  \<open>_is_base_dir_ok(botobj)\<close>, whether \<open>botobj\<close> is set, and the list \<open>s\<close> of complaints
  about free disk space that \<open>_get_state\<close> computes, in floating point, from what the
  hook \<open>get_settings\<close> returned (merged into \<open>DEFAULT_SETTINGS\<close>), the state and the
  partitions; these lines subscript and convert what the hooks returned, and \<open>Inl\<close> is the
  class of the exception when one of them raises.
\<close>

record bot_host =
  repr :: "pyval \<Rightarrow> string"
  traceback :: string
  os_get_dimensions :: "string + pydict"
  get_hostname_short :: "string + string"
  is_base_dir_ok :: bool
  botobj :: bool
  disk_messages :: "pyval \<Rightarrow> pydict \<Rightarrow> string + string list"

text \<open>
  \<open>_set_quarantined\<close>: \<open>logging.error('_set_quarantined(%s)', reason)\<close>, then
  \<open>_QUARANTINED = _QUARANTINED or reason\<close>.
\<close>

definition set_quarantined ::
  "string \<Rightarrow> 'a bot_process_scheme \<Rightarrow> 'a bot_process_scheme" where
  "set_quarantined reason p =
     p\<lparr>set_quarantined_log := set_quarantined_log p @ [reason],
       QUARANTINED :=
         (case QUARANTINED p of
            None \<Rightarrow> Some reason
          | Some q \<Rightarrow> if q \<noteq> [] then Some q else Some reason)\<rparr>"

text \<open>\<open>'\n'.join(s)\<close>.\<close>

fun join_lines :: "string list \<Rightarrow> string" where
  "join_lines [] = []"
| "join_lines [x] = x"
| "join_lines (x # y # ys) = x @ [CHR 0x0A] @ join_lines (y # ys)"

text \<open>\<open>_call_hook_safe\<close>: the value of the hook, \<open>None\<close> when it threw.\<close>

definition call_hook_safe ::
  "bot_host \<Rightarrow> string \<Rightarrow> hook_outcome \<Rightarrow> 'a bot_process_scheme
     \<Rightarrow> pyval \<times> 'a bot_process_scheme" where
  "call_hook_safe h hook_name hook p =
     (case hook of
        Hook_returns v \<Rightarrow> (v, p)
      | Hook_throws e \<Rightarrow>
          (let msg = e @ [CHR 0x0A] @ traceback h;
               p = p\<lparr>actions := actions p @
                      [Post_error (''Failed to call hook '' @ hook_name @ ''(): '' @ msg)]\<rparr>
           in (PNone, set_quarantined msg p)))"

text \<open>\<open>_get_dimensions\<close>.\<close>

definition get_dimensions ::
  "bot_host \<Rightarrow> hook_outcome \<Rightarrow> 'a bot_process_scheme \<Rightarrow> pydict \<times> 'a bot_process_scheme" where
  "get_dimensions h hook p =
     (let (out, p) = call_hook_safe h ''get_dimensions'' hook p
      in case out of
           PDict d \<Rightarrow> (d, p)
         | _ \<Rightarrow>
             (let p = set_quarantined (''get_dimensions(): expected a dict, got '' @ repr h out) p
              in case os_get_dimensions h of
                   Inr out2 \<Rightarrow> (AList.update ''quarantined'' (PList [PStr ''1'']) out2, p)
                 | Inl e \<Rightarrow>
                     (let botid = (case get_hostname_short h of
                                     Inr n \<Rightarrow> n
                                   | Inl e2 \<Rightarrow> ''error_'' @ e2)
                      in ([(''id'', PList [PStr botid]),
                           (''error'', PList [PStr (e @ [CHR 0x0A] @ traceback h)]),
                           (''quarantined'', PList [PStr ''1''])], p))))"

text \<open>
  \<open>_get_state\<close>, its lines on the sticky quarantine: a state that the hook did not
  mark quarantined is marked with \<open>_QUARANTINED\<close>, once the base directory has been
  looked at.
\<close>

definition quarantine_state ::
  "bot_host \<Rightarrow> pydict \<Rightarrow> 'a bot_process_scheme \<Rightarrow> pydict \<times> 'a bot_process_scheme" where
  "quarantine_state h d p =
     (if \<not> truthy (py_get d ''quarantined'' PNone)
      then (let p = (if \<not> is_base_dir_ok h
                     then set_quarantined
                            (''Can'' @ [CHR 0x27] @ ''t run from blacklisted directory'') p
                     else p)
            in case QUARANTINED p of
                 None \<Rightarrow> (d, p)
               | Some q \<Rightarrow>
                   if q \<noteq> [] then (AList.update ''quarantined'' (PStr q) d, p) else (d, p))
      else (d, p))"

text \<open>
  \<open>_get_state\<close>, its lines on the disks, for a state that is not quarantined yet, on a
  bot with a \<open>botobj\<close>: \<open>_get_settings\<close> calls the hook \<open>get_settings\<close> through
  \<open>_call_hook_safe\<close>, and the state is marked with the complaints about free space, if
  there are any. \<open>Inl\<close> is the class of an exception that these lines raise.
\<close>

definition disk_quarantine ::
  "bot_host \<Rightarrow> hook_outcome \<Rightarrow> pydict \<Rightarrow> 'a bot_process_scheme
     \<Rightarrow> (string + pydict) \<times> 'a bot_process_scheme" where
  "disk_quarantine h get_settings d p =
     (if \<not> truthy (py_get d ''quarantined'' PNone) \<and> botobj h
      then (let (settings, p) = call_hook_safe h ''get_settings'' get_settings p
            in case disk_messages h settings d of
                 Inl exn \<Rightarrow> (Inl exn, p)
               | Inr s \<Rightarrow>
                   (Inr (if s \<noteq> []
                         then AList.update ''quarantined'' (PStr (join_lines s)) d else d), p))
      else (Inr d, p))"

text \<open>
  \<open>_get_state\<close>: the state reported to the server with each poll, or the class of the
  exception that leaves it: \<open>state.get\<close> raises \<open>AttributeError\<close> when the hook gave no
  dict.
\<close>

definition get_state ::
  "bot_host \<Rightarrow> hook_outcome \<Rightarrow> hook_outcome \<Rightarrow> int \<Rightarrow> 'a bot_process_scheme
     \<Rightarrow> (string + pydict) \<times> 'a bot_process_scheme" where
  "get_state h hook get_settings sleep_streak p =
     (let (out, p) = call_hook_safe h ''get_state'' hook p
      in case out of
           PDict d \<Rightarrow>
             (let (d, p) = quarantine_state h d p;
                  d = AList.update ''sleep_streak'' (PInt sleep_streak) d
              in disk_quarantine h get_settings d p)
         | _ \<Rightarrow>
             (Inl ''AttributeError'',
              set_quarantined (''get_state(): expected a dict, got '' @ repr h out) p))"

text \<open>
  \<open>_register_extra_bot_config\<close>, as far as the quarantine goes: \<open>compile\<close> and \<open>exec\<close>
  of the injected bot_config succeed, or raise a \<open>SyntaxError\<close> or \<open>TypeError\<close> with a
  text.
\<close>

definition register_extra_bot_config ::
  "string option \<Rightarrow> 'a bot_process_scheme \<Rightarrow> 'a bot_process_scheme" where
  "register_extra_bot_config compile_error p =
     (case compile_error of
        None \<Rightarrow> p
      | Some e \<Rightarrow> set_quarantined (''handshake returned invalid bot_config: '' @ e) p)"

section \<open>The bot: main loop\<close>

text \<open>
  Exceptions as the loop tells them apart: \<open>remote_client_errors.PollError\<close> and
  \<open>InternalError\<close>, any other subclass of \<open>Exception\<close> with its class name, and
  \<open>SystemExit\<close>, which \<open>except Exception\<close> does not catch.
\<close>

datatype exn = PollError string | InternalError | Exception string | SystemExit int

fun is_Exception :: "exn \<Rightarrow> bool" where
  "is_Exception (SystemExit code) = False"
| "is_Exception e = True"

fun exn_text :: "exn \<Rightarrow> string" where
  "exn_text (PollError e) = e"
| "exn_text InternalError = ''InternalError''"
| "exn_text (Exception e) = e"
| "exn_text (SystemExit code) = ''SystemExit''"

datatype 'a outcome = Returns 'a | Raises exn

text \<open>
  What one turn of the loop meets: the host, the outcomes of the hooks
  \<open>get_dimensions\<close>, \<open>get_state\<close>, \<open>get_settings\<close> and \<open>on_bot_idle\<close>, the outcome of
  \<open>botobj.remote.poll\<close> (the command and its value, or an exception), the outcomes of
  the calls a command leads to (\<open>botobj.remote.post_task_update\<close>, \<open>_run_manifest\<close>,
  \<open>_clean_cache\<close>, \<open>_update_bot\<close>, which ends the process with \<open>SystemExit\<close> when the new
  code took over, and \<open>botobj.host_reboot\<close>), whether a stop signal arrives during the
  turn, and the time read after the poll. \<open>_update_lkgbc\<close> only copies a file and traps
  every \<open>Exception\<close>, and \<open>botobj._update_dimensions\<close> and \<open>botobj._update_state\<close> store
  what they are given: they have no outcome of their own here.
\<close>

record iteration =
  it_host :: bot_host
  dimensions_hook :: hook_outcome
  state_hook :: hook_outcome
  settings_hook :: hook_outcome
  poll_outcome :: "(string \<times> pyval) outcome"
  on_bot_idle :: hook_outcome
  post_task_update :: "unit outcome"
  run_manifest :: "bool outcome"
  clean_cache :: "unit outcome"
  update_bot :: "unit outcome"
  host_reboot :: "unit outcome"
  stop_signal :: bool
  time_now :: nat

text \<open>
  The state of \<open>_run_bot\<close> in its loop: the process, \<open>quit_bit\<close>, \<open>consecutive_sleeps\<close>,
  \<open>last_action\<close>, and the state and dimensions held by \<open>botobj\<close>.
\<close>

record bot_loop = bot_process +
  quit_bit :: bool
  consecutive_sleeps :: int
  last_action :: nat
  bot_state :: pydict
  bot_dimensions :: pydict

text \<open>
  \<open>quit_bit.wait(d)\<close>: the bot waits for \<open>d\<close> seconds, or until the signal handler sets
  \<open>quit_bit\<close>.
\<close>

definition wait :: "pyval \<Rightarrow> iteration \<Rightarrow> bot_loop \<Rightarrow> bot_loop" where
  "wait d it st = st\<lparr>actions := actions st @ [Wait d], quit_bit := quit_bit st \<or> stop_signal it\<rparr>"

text \<open>
  \<open>max(1, min(60, sleep_streak * 2))\<close> on the value of \<open>sleep_streak\<close> in the bot's
  state, as Python 2 computes it: a number is doubled, a string or list doubled is above
  every number, and \<open>None\<close> or a dict cannot be multiplied (\<open>TypeError\<close>, \<open>None\<close> here).
\<close>

fun poll_delay :: "pyval \<Rightarrow> int option" where
  "poll_delay (PInt n) = Some (max 1 (min 60 (n * 2)))"
| "poll_delay (PBool b) = Some (max 1 (min 60 ((if b then 1 else 0) * 2)))"
| "poll_delay (PStr s) = Some 60"
| "poll_delay (PList xs) = Some 60"
| "poll_delay PNone = None"
| "poll_delay (PDict d) = None"

text \<open>\<open>_poll_server\<close>: whether it did something, or the exception that leaves it.\<close>

definition poll_server :: "iteration \<Rightarrow> bot_loop \<Rightarrow> bool outcome \<times> bot_loop" where
  "poll_server it st =
     (case poll_outcome it of
        Raises (PollError e) \<Rightarrow>
          (case poll_delay (py_get (bot_state st) ''sleep_streak'' (PInt 10)) of
             None \<Rightarrow> (Raises (Exception ''TypeError''), st)
           | Some delay \<Rightarrow> (Returns False, wait (PInt delay) it st))
      | Raises e \<Rightarrow> (Raises e, st)
      | Returns (cmd, v) \<Rightarrow>
          if cmd = ''sleep'' then
            (let (r, st) = call_hook_safe (it_host it) ''on_bot_idle'' (on_bot_idle it) st
             in (Returns False, wait v it st))
          else if cmd = ''terminate'' then
            (let st = st\<lparr>actions := actions st @ [Post_task_update v], quit_bit := True\<rparr>
             in case post_task_update it of
                  Returns u \<Rightarrow> (Returns False, st)
                | Raises InternalError \<Rightarrow> (Returns False, st)
                | Raises e \<Rightarrow> (Raises e, st))
          else if cmd = ''run'' then
            (case run_manifest it of
               Raises e \<Rightarrow> (Raises e, st)
             | Returns succeeded \<Rightarrow>
                 (case clean_cache it of
                    Raises e \<Rightarrow> (Raises e, st)
                  | Returns u \<Rightarrow> (Returns True, st)))
          else if cmd = ''update'' then
            (case update_bot it of
               Raises e \<Rightarrow> (Raises e, st)
             | Returns u \<Rightarrow> (Returns True, st))
          else if cmd = ''host_reboot'' \<or> cmd = ''restart'' then
            (case host_reboot it of
               Raises e \<Rightarrow> (Raises e, st)
             | Returns u \<Rightarrow> (Returns True, st))
          else (Raises (Exception ''ValueError''), st))"

text \<open>
  The first lines of the \<open>try\<close> in the loop of \<open>_run_bot\<close>: the dimensions and the
  state are read again and given to \<open>botobj\<close>.
\<close>

definition refresh :: "iteration \<Rightarrow> bot_loop \<Rightarrow> unit outcome \<times> bot_loop" where
  "refresh it st =
     (let (dims, st) = get_dimensions (it_host it) (dimensions_hook it) st;
          (states, st) = get_state (it_host it) (state_hook it) (settings_hook it)
                           (consecutive_sleeps st) st
      in case states of
           Inl exn \<Rightarrow> (Raises (Exception exn), st)
         | Inr states \<Rightarrow> (Returns (), st\<lparr>bot_dimensions := dims, bot_state := states\<rparr>))"

text \<open>The whole body of the \<open>try\<close>: after the refresh the server is polled.\<close>

definition loop_body :: "iteration \<Rightarrow> bot_loop \<Rightarrow> unit outcome \<times> bot_loop" where
  "loop_body it st =
     (case refresh it st of
        (Raises e, st) \<Rightarrow> (Raises e, st)
      | (Returns u, st) \<Rightarrow>
          (case poll_server it st of
             (Raises e, st) \<Rightarrow> (Raises e, st)
           | (Returns did_something, st) \<Rightarrow>
               if did_something
               then (Returns (), st\<lparr>last_action := time_now it, consecutive_sleeps := 0\<rparr>)
               else (Returns (), st\<lparr>consecutive_sleeps := consecutive_sleeps st + 1\<rparr>)))"

text \<open>
  One turn of the loop with its \<open>except Exception\<close>: the error is posted, the streak is
  reset and the bot waits 10 seconds. An exception that is no \<open>Exception\<close> leaves
  \<open>_run_bot\<close>. A stop signal sets \<open>quit_bit\<close> by the end of the turn at the latest.
\<close>

definition run_bot_step :: "iteration \<Rightarrow> bot_loop \<Rightarrow> unit outcome \<times> bot_loop" where
  "run_bot_step it st =
     (case loop_body it st of
        (Returns u, st) \<Rightarrow> (Returns (), st\<lparr>quit_bit := quit_bit st \<or> stop_signal it\<rparr>)
      | (Raises e, st) \<Rightarrow>
          if is_Exception e
          then (let msg = exn_text e @ [CHR 0x0A] @ traceback (it_host it);
                    st = st\<lparr>actions := actions st @ [Post_error msg], consecutive_sleeps := 0\<rparr>
                in (Returns (), wait (PInt 10) it st))
          else (Raises e, st))"

text \<open>
  The loop \<open>while not quit_bit.is_set()\<close> over the turns given: it has quit (and posted
  \<open>bot_shutdown\<close>), or an exception ended the process, or it is still polling when the
  turns given are used up.
\<close>

datatype loop_result = Quit bot_loop | Exited exn bot_loop | Polling bot_loop

fun run_bot_loop :: "iteration list \<Rightarrow> bot_loop \<Rightarrow> loop_result" where
  "run_bot_loop [] st =
     (if quit_bit st
      then Quit (st\<lparr>actions := actions st @ [Post_event ''bot_shutdown'' ''Signal was received'']\<rparr>)
      else Polling st)"
| "run_bot_loop (it # its) st =
     (if quit_bit st
      then Quit (st\<lparr>actions := actions st @ [Post_event ''bot_shutdown'' ''Signal was received'']\<rparr>)
      else case run_bot_step it st of
             (Raises e, st) \<Rightarrow> Exited e st
           | (Returns u, st) \<Rightarrow> run_bot_loop its st)"

text \<open>
  A host in good shape: the base directory is fine, the disks have room, and
  \<open>os_utilities\<close> answers.
\<close>

definition example_host :: bot_host where
  "example_host =
     \<lparr>repr = (\<lambda>v. ''None''), traceback = ''Traceback (most recent call last)'',
      os_get_dimensions = Inr [(''id'', PList [PStr ''bot1''])],
      get_hostname_short = Inr ''bot1'', is_base_dir_ok = True, botobj = True,
      disk_messages = (\<lambda>settings state. Inr [])\<rparr>"

text \<open>
  A turn of the loop on that host, whose hooks return dicts, with the outcome of the
  poll left open; and a bot in its loop after three sleeps in a row.
\<close>

definition example_iteration :: "(string \<times> pyval) outcome \<Rightarrow> iteration" where
  "example_iteration polled =
     \<lparr>it_host = example_host,
      dimensions_hook = Hook_returns (PDict [(''id'', PList [PStr ''bot1''])]),
      state_hook = Hook_returns (PDict [(''cost_usd_hour'', PInt 1)]),
      settings_hook = Hook_returns PNone,
      poll_outcome = polled,
      on_bot_idle = Hook_returns PNone,
      post_task_update = Returns (),
      run_manifest = Returns True,
      clean_cache = Returns (),
      update_bot = Raises (SystemExit 0),
      host_reboot = Returns (),
      stop_signal = False,
      time_now = 1000\<rparr>"

definition example_loop :: bot_loop where
  "example_loop =
     \<lparr>QUARANTINED = None, set_quarantined_log = [], actions = [], quit_bit = False,
      consecutive_sleeps = 3, last_action = 900, bot_state = [], bot_dimensions = []\<rparr>"

section \<open>The bot: what a process does to its quarantine\<close>

text \<open>
  Everything in bot_main.py that calls \<open>_set_quarantined\<close>, as the steps of a bot
  process: a hook called through \<open>_call_hook_safe\<close> (\<open>on_bot_startup\<close>, \<open>on_handshake\<close>,
  \<open>on_bot_shutdown\<close>, and \<open>on_before_task\<close> and \<open>on_after_task\<close>, which \<open>_run_manifest\<close>
  calls in the course of a turn: they are steps of their own, next to the turn, since
  nothing in a turn reads or writes \<open>_QUARANTINED\<close> after them), \<open>_get_dimensions\<close> and
  \<open>_get_state\<close> as \<open>_run_bot\<close> calls them before the handshake,
  \<open>_register_extra_bot_config\<close> on the handshake, and a turn of the main loop. No other
  line of bot_main.py calls \<open>_set_quarantined\<close> or assigns \<open>_QUARANTINED\<close>.
\<close>

datatype bot_step =
    Call_hook_safe bot_host string hook_outcome
  | Get_dimensions bot_host hook_outcome
  | Get_state bot_host hook_outcome hook_outcome int
  | Register_extra_bot_config "string option"
  | Loop_turn iteration

fun run_step :: "bot_step \<Rightarrow> bot_loop \<Rightarrow> bot_loop" where
  "run_step (Call_hook_safe h hook_name hook) p = snd (call_hook_safe h hook_name hook p)"
| "run_step (Get_dimensions h hook) p = snd (get_dimensions h hook p)"
| "run_step (Get_state h hook get_settings sleep_streak) p =
     snd (get_state h hook get_settings sleep_streak p)"
| "run_step (Register_extra_bot_config compile_error) p =
     register_extra_bot_config compile_error p"
| "run_step (Loop_turn it) p = snd (run_bot_step it p)"

definition run_steps :: "bot_step list \<Rightarrow> bot_loop \<Rightarrow> bot_loop" where
  "run_steps steps p = fold run_step steps p"

text \<open>
  Two properties of a process that the proofs carry along. \<open>first_reason_kept\<close>:
  \<open>_QUARANTINED\<close> is \<open>None\<close> as long as \<open>_set_quarantined\<close> has not been called, and
  afterwards it is the first reason passed, which is not the empty string.
  \<open>process_grows p p'\<close>: if \<open>p\<close> has the first property, so has \<open>p'\<close>, and the calls of
  \<open>_set_quarantined\<close> in \<open>p'\<close> are those of \<open>p\<close> and possibly more.
\<close>

definition first_reason_kept :: "'a bot_process_scheme \<Rightarrow> bool" where
  "first_reason_kept p =
     (case set_quarantined_log p of
        [] \<Rightarrow> QUARANTINED p = None
      | r # rs \<Rightarrow> r \<noteq> [] \<and> QUARANTINED p = Some r)"

definition process_grows :: "'a bot_process_scheme \<Rightarrow> 'a bot_process_scheme \<Rightarrow> bool" where
  "process_grows p p' =
     (first_reason_kept p \<longrightarrow>
        first_reason_kept p'
        \<and> (\<exists>new. set_quarantined_log p' = set_quarantined_log p @ new))"

section \<open>Theorems\<close>

subsection \<open>Priority of normal users\<close>

lemma map_of_update_priority:
  "map_of (AList.update ''priority'' v d) k = (if k = ''priority'' then Some v else map_of d k)"
  by (simp add: update_conv')

lemma example_request_clamped:
  "AList.update ''priority'' (PInt 100) (example_request p) = example_request 100"
  "map_of (example_request p) ''priority'' = Some (PInt p)"
  by (simp_all add: example_request_def)

lemma storing_make_request_example:
  "storing_make_request (example_request p) ds
     = (Inr (PDict [(''name'', PStr ''t''), (''priority'', PInt p)], ''t'', ''5a1''),
        ds @ [[(''name'', PStr ''t''), (''priority'', PInt p)]])"
  by (simp add: storing_make_request_def example_request_def)

text \<open>
  C4. A task-creation request whose submitted priority is an integer \<open>p\<close> is handed to
  \<open>make_request\<close> with priority exactly 100 when \<open>p < 100\<close> and the submitter is neither a
  bot nor an admin, and as it was submitted otherwise (every other key is handed over
  as submitted in both cases); what the handler replies and what the datastore holds
  afterwards is what \<open>make_request\<close> makes of that dict, for whatever \<open>make_request\<close>
  does. This holds for the JSON API handler and for the legacy \<open>/test\<close> handler, whose
  reply names the priority used.
\<close>

theorem priority_clamped_to_100:
  assumes "map_of request ''priority'' = Some (PInt p)"
  shows "(let handed = (if p < 100 \<and> \<not> adm
                        then AList.update ''priority'' (PInt 100) request else request)
          in map_of handed ''priority'' = Some (PInt (if p < 100 \<and> \<not> adm then 100 else p))
           \<and> (\<forall>k. k \<noteq> ''priority'' \<longrightarrow> map_of handed k = map_of request k)
           \<and> ClientRequestHandler_post adm mk request ds =
               (case mk handed ds of
                  (Inl err, ds') \<Rightarrow> (Abort 400 (Text err), ds')
                | (Inr (request_dict, nm, task_id), ds') \<Rightarrow>
                    (Send_response (PDict [(''request'', request_dict),
                                           (''task_id'', PStr task_id)]), ds'))
           \<and> (test_case \<noteq> [] \<and> conv test_case = Inr request \<longrightarrow>
                TestRequestHandler_post adm conv mk test_case ds =
                  (case mk handed ds of
                     (Inl err, ds') \<Rightarrow> (Uncaught err, ds')
                   | (Inr (request_dict, nm, test_key), ds') \<Rightarrow>
                       (Send_response (PDict
                          [(''priority'', PInt (if p < 100 \<and> \<not> adm then 100 else p)),
                           (''test_case_name'', PStr nm),
                           (''test_keys'', PList [PDict
                              [(''config_name'', PStr nm),
                               (''instance_index'', PInt 0),
                               (''num_instances'', PInt 1),
                               (''test_key'', PStr test_key)]])]), ds'))))"
proof -
  have get: "py_get request ''priority'' (PInt 255) = PInt p"
    using assms by (simp add: py_get_def)
  have client: "ClientRequestHandler_post adm mk request ds =
       (case mk (if p < 100 \<and> \<not> adm
                 then AList.update ''priority'' (PInt 100) request else request) ds of
          (Inl err, ds') \<Rightarrow> (Abort 400 (Text err), ds')
        | (Inr (request_dict, nm, task_id), ds') \<Rightarrow>
            (Send_response (PDict [(''request'', request_dict),
                                   (''task_id'', PStr task_id)]), ds'))"
    by (simp add: ClientRequestHandler_post_def get)
  have legacy: "TestRequestHandler_post adm conv mk test_case ds =
       (case mk (if p < 100 \<and> \<not> adm
                 then AList.update ''priority'' (PInt 100) request else request) ds of
          (Inl err, ds') \<Rightarrow> (Uncaught err, ds')
        | (Inr (request_dict, nm, test_key), ds') \<Rightarrow>
            (Send_response (PDict
               [(''priority'', PInt (if p < 100 \<and> \<not> adm then 100 else p)),
                (''test_case_name'', PStr nm),
                (''test_keys'', PList [PDict
                   [(''config_name'', PStr nm),
                    (''instance_index'', PInt 0),
                    (''num_instances'', PInt 1),
                    (''test_key'', PStr test_key)]])]), ds'))"
    if "test_case \<noteq> []" and "conv test_case = Inr request"
    using that assms
    by (auto simp: TestRequestHandler_post_def py_get_def map_of_update_priority
        split: prod.splits sum.splits)
  from assms client legacy show ?thesis
    by (simp add: Let_def map_of_update_priority)
qed

theorem priority_clamped_to_100_witness:
  "map_of (example_request 50) ''priority'' = Some (PInt 50)
   \<and> ClientRequestHandler_post False storing_make_request (example_request 50) []
       = (Send_response (PDict
            [(''request'', PDict [(''name'', PStr ''t''), (''priority'', PInt 100)]),
             (''task_id'', PStr ''5a1'')]),
          [[(''name'', PStr ''t''), (''priority'', PInt 100)]])
   \<and> ''{}'' \<noteq> []
   \<and> TestRequestHandler_post False (\<lambda>x. Inr (example_request 50)) storing_make_request
        ''{}'' []
       = (Send_response (PDict
            [(''priority'', PInt 100),
             (''test_case_name'', PStr ''t''),
             (''test_keys'', PList [PDict
                [(''config_name'', PStr ''t''),
                 (''instance_index'', PInt 0),
                 (''num_instances'', PInt 1),
                 (''test_key'', PStr ''5a1'')]])]),
          [[(''name'', PStr ''t''), (''priority'', PInt 100)]])
   \<and> ClientRequestHandler_post True storing_make_request (example_request 50) []
       = (Send_response (PDict
            [(''request'', PDict [(''name'', PStr ''t''), (''priority'', PInt 50)]),
             (''task_id'', PStr ''5a1'')]),
          [[(''name'', PStr ''t''), (''priority'', PInt 50)]])
   \<and> map_of (example_request 120) ''priority'' = Some (PInt 120)
   \<and> ClientRequestHandler_post False storing_make_request (example_request 120) []
       = (Send_response (PDict
            [(''request'', PDict [(''name'', PStr ''t''), (''priority'', PInt 120)]),
             (''task_id'', PStr ''5a1'')]),
          [[(''name'', PStr ''t''), (''priority'', PInt 120)]])"
proof -
  have h: "map_of (example_request 50) ''priority'' = Some (PInt 50)"
    "map_of (example_request 120) ''priority'' = Some (PInt 120)"
    by (simp_all add: example_request_clamped)
  have t: "''{}'' \<noteq> [] \<and> (\<lambda>x. Inr (example_request 50)) ''{}''
             = (Inr (example_request 50) :: string + pydict)"
    by simp
  note low = priority_clamped_to_100 [OF h(1), where adm = False
      and mk = storing_make_request and ds = "[]" and test_case = "''{}''"
      and conv = "\<lambda>data. Inr (example_request 50)"]
  note admin = priority_clamped_to_100 [OF h(1), where adm = True
      and mk = storing_make_request and ds = "[]" and test_case = "''{}''"
      and conv = "\<lambda>data. Inr (example_request 50)"]
  note high = priority_clamped_to_100 [OF h(2), where adm = False
      and mk = storing_make_request and ds = "[]" and test_case = "''{}''"
      and conv = "\<lambda>data. Inr (example_request 120)"]
  from low t have
    "ClientRequestHandler_post False storing_make_request (example_request 50) []
       = (Send_response (PDict
            [(''request'', PDict [(''name'', PStr ''t''), (''priority'', PInt 100)]),
             (''task_id'', PStr ''5a1'')]),
          [[(''name'', PStr ''t''), (''priority'', PInt 100)]])"
    "TestRequestHandler_post False (\<lambda>x. Inr (example_request 50)) storing_make_request
        ''{}'' []
       = (Send_response (PDict
            [(''priority'', PInt 100),
             (''test_case_name'', PStr ''t''),
             (''test_keys'', PList [PDict
                [(''config_name'', PStr ''t''),
                 (''instance_index'', PInt 0),
                 (''num_instances'', PInt 1),
                 (''test_key'', PStr ''5a1'')]])]),
          [[(''name'', PStr ''t''), (''priority'', PInt 100)]])"
    by (simp_all add: Let_def example_request_clamped storing_make_request_example)
  moreover from admin have
    "ClientRequestHandler_post True storing_make_request (example_request 50) []
       = (Send_response (PDict
            [(''request'', PDict [(''name'', PStr ''t''), (''priority'', PInt 50)]),
             (''task_id'', PStr ''5a1'')]),
          [[(''name'', PStr ''t''), (''priority'', PInt 50)]])"
    by (simp add: Let_def storing_make_request_example)
  moreover from high have
    "ClientRequestHandler_post False storing_make_request (example_request 120) []
       = (Send_response (PDict
            [(''request'', PDict [(''name'', PStr ''t''), (''priority'', PInt 120)]),
             (''task_id'', PStr ''5a1'')]),
          [[(''name'', PStr ''t''), (''priority'', PInt 120)]])"
    by (simp add: Let_def storing_make_request_example)
  ultimately show ?thesis using h by simp
qed

subsection \<open>Poll\<close>


lemma is_reap_report: "is_report ev \<Longrightarrow> \<not> is_reap ev"
  by (cases ev) simp_all

lemma reports_no_reap: "list_all is_report evs \<Longrightarrow> \<not> list_ex is_reap evs"
  by (induction evs) (auto dest: is_reap_report)


text \<open>What the first lines assign, when they raise nothing.\<close>

lemma first_lines_Inr:
  "fst (first_lines request) = Inr v \<longleftrightarrow>
     (\<exists>keys d b. frozenset_keys (py_get request ''state'' (PDict [])) = Some keys
        \<and> py_get request ''dimensions'' (PDict []) = PDict d
        \<and> first_or_unknown (py_get d ''id'' PNone) = Inr b
        \<and> v = \<lparr>var_msg = fst (log_unexpected_subset_keys ACCEPTED_KEYS EXPECTED_KEYS
                               (map fst request) ''bot'' ''keys''),
                var_state = py_get request ''state'' (PDict []),
                var_dimensions = d, var_bot_id = b,
                var_quarantined = py_get d ''quarantined'' (PBool False)\<rparr>)"
  by (auto simp: first_lines_def Let_def split: prod.splits option.splits pyval.splits sum.splits)

lemma post_raises:
  "fst (first_lines request) = Inl exn \<Longrightarrow>
     BotPollHandler_post e request = (Uncaught exn, snd (first_lines request))"
  by (cases "first_lines request") (simp add: BotPollHandler_post_def)

lemma post_update:
  assumes "fst (first_lines request) = Inr v"
    and "var_msg v \<noteq> None \<or> py_get request ''version'' PNone \<noteq> PStr (get_bot_version e)"
  shows "BotPollHandler_post e request =
     (Send_response (cmd_update (get_bot_version e)), snd (first_lines request))"
  using assms by (cases "first_lines request") (auto simp: BotPollHandler_post_def Let_def)

lemma post_after:
  assumes "fst (first_lines request) = Inr v"
    and "var_msg v = None" and "py_get request ''version'' PNone = PStr (get_bot_version e)"
    and "var_state v = PDict st"
  shows "BotPollHandler_post e request =
     (fst (after_version_test e request v st),
      snd (first_lines request) @ snd (after_version_test e request v st))"
  using assms
  by (cases "first_lines request")
     (simp add: BotPollHandler_post_def Let_def case_prod_beta)

lemma post_state_no_dict:
  assumes "fst (first_lines request) = Inr v"
    and "var_msg v = None" and "py_get request ''version'' PNone = PStr (get_bot_version e)"
    and "\<forall>st. var_state v \<noteq> PDict st"
  shows "fst (BotPollHandler_post e request) = Uncaught ''AttributeError''"
  using assms
  by (cases "first_lines request"; cases "var_state v")
     (simp_all add: BotPollHandler_post_def Let_def)

lemma after_reply:
  "fst (after_version_test e request v st) =
     (if \<not> truthy (var_bot_id v)
        then Send_response (cmd_sleep e (py_get st ''sleep_streak'' (PInt 0)) (PBool True))
      else if truthy (poll_quarantined e v)
        then Send_response (cmd_sleep e (py_get st ''sleep_streak'' (PInt 0))
               (poll_quarantined e v))
      else if fst (poll_needs_restart e request v st)
        then Send_response (cmd_restart (snd (poll_needs_restart e request v st)))
      else (case poll_reap e request v of
              No_task \<Rightarrow>
                Send_response (cmd_sleep e (py_get st ''sleep_streak'' (PInt 0)) (PBool False))
            | Reaped props run_result_key \<Rightarrow>
                Send_response (cmd_run e props run_result_key (var_bot_id v))
            | DeadlineExceededError \<Rightarrow> Abort 500 (Text ''Deadline'')
            | Raised exn \<Rightarrow> Uncaught exn))"
  by (simp add: after_version_test_def poll_quarantined_def poll_needs_restart_def
        poll_reap_def Let_def case_prod_beta split: reap_outcome.splits)

lemma after_calls_reap:
  "list_ex is_reap (snd (after_version_test e request v st)) \<longleftrightarrow>
     truthy (var_bot_id v) \<and> \<not> truthy (poll_quarantined e v)
     \<and> \<not> fst (poll_needs_restart e request v st)"
proof -
  obtain q log3 where sq:
    "server_quarantine e (var_dimensions v) (var_quarantined v) = (q, log3)"
    by (cases "server_quarantine e (var_dimensions v) (var_quarantined v)")
  have log3: "list_all is_report log3"
    using sq by (auto simp: server_quarantine_def Let_def split: if_splits)
  then have nr: "\<not> list_ex is_reap log3" by (rule reports_no_reap)
  show ?thesis
    using sq nr
    by (simp add: after_version_test_def poll_quarantined_def poll_needs_restart_def
          Let_def case_prod_beta split: reap_outcome.splits)
qed



lemma cmd_of_simps':
  "cmd_of (Send_response (cmd_update ver)) = Some (PStr ''update'')"
  "cmd_of (Send_response (cmd_sleep e s q)) = Some (PStr ''sleep'')"
  "cmd_of (Send_response (cmd_restart m)) = Some (PStr ''restart'')"
  "cmd_of (Send_response (cmd_run e p k b)) = Some (PStr ''run'')"
  by (simp_all add: cmd_update_def cmd_sleep_def cmd_restart_def cmd_run_def)


lemma py_get_list:
  "py_get [] k dflt = dflt"
  "py_get ((k', x) # kvs) k dflt = (if k = k' then x else py_get kvs k dflt)"
  by (simp_all add: py_get_def)

lemma example_env_fields:
  "get_bot_version (example_env r) = ''abc123''"
  "remote_addr (example_env r) = ''192.168.0.7''"
  "dimensions_powerset_count (example_env r) d = prod_list (map values_count d)"
  "MAX_DIMENSIONS (example_env r) = 8"
  "exponential_backoff (example_env r) s = PInt 2"
  "should_restart_bot (example_env r) b rq st = (False, [])"
  "bot_reap_task (example_env r) d b ver = r"
  "get_versioned_hosturl (example_env r) = ''https://1-dot-swarming.example.com''"
  "pack_run_result_key (example_env r) k = ''1d69b9f088008811''"
  by (simp_all add: example_env_def)

lemma example_poll_fields:
  "py_get (example_poll d st ver others) ''dimensions'' dflt = d"
  "py_get (example_poll d st ver others) ''state'' dflt = st"
  "py_get (example_poll d st ver others) ''version'' dflt = PStr ver"
  by (simp_all add: example_poll_def py_get_def)

lemma example_poll_keys:
  "log_unexpected_subset_keys ACCEPTED_KEYS EXPECTED_KEYS
     (map fst (example_poll d st ver [])) ''bot'' ''keys'' = (None, [])"
  "log_unexpected_subset_keys ACCEPTED_KEYS EXPECTED_KEYS
     (map fst (example_poll d st ver [(''extra'', PNone)])) ''bot'' ''keys''
   = (Some (Unexpected ''keys'' {} {''extra''}),
      [Log_request ''bot'' (Unexpected ''keys'' {} {''extra''})])"
  by (auto simp: log_unexpected_subset_keys_def example_poll_def ACCEPTED_KEYS_def
        EXPECTED_KEYS_def Let_def)

lemma example_state_keys:
  "log_missing_keys REQUIRED_STATE_KEYS [''running_time'', ''sleep_streak'']
     ''bot'' ''state'' = (None, [])"
  by (simp add: log_missing_keys_def REQUIRED_STATE_KEYS_def Let_def)

lemma example_first_lines:
  "first_lines (example_poll one_dimension example_state ver []) =
     (Inr \<lparr>var_msg = None, var_state = example_state,
           var_dimensions = [(''id'', PList [PStr ''bot1''])], var_bot_id = PStr ''bot1'',
           var_quarantined = PBool False\<rparr>, [])"
  "first_lines (example_poll no_id_dimensions example_state ver []) =
     (Inr \<lparr>var_msg = None, var_state = example_state,
           var_dimensions = [(''os'', PList [PStr ''Linux''])], var_bot_id = PStr ''unknown'',
           var_quarantined = PBool False\<rparr>, [])"
  "first_lines (example_poll many_dimensions example_state ver []) =
     (Inr \<lparr>var_msg = None, var_state = example_state,
           var_dimensions = [(''id'', PList [PStr ''bot1'']),
              (''os'', PList [PStr ''Linux'', PStr ''Ubuntu'', PStr ''Ubuntu-14.04'']),
              (''cpu'', PList [PStr ''x86'', PStr ''x86-64''])],
           var_bot_id = PStr ''bot1'', var_quarantined = PBool False\<rparr>, [])"
  "first_lines (example_poll many_dimensions example_state ver [(''extra'', PNone)]) =
     (Inr \<lparr>var_msg = Some (Unexpected ''keys'' {} {''extra''}), var_state = example_state,
           var_dimensions = [(''id'', PList [PStr ''bot1'']),
              (''os'', PList [PStr ''Linux'', PStr ''Ubuntu'', PStr ''Ubuntu-14.04'']),
              (''cpu'', PList [PStr ''x86'', PStr ''x86-64''])],
           var_bot_id = PStr ''bot1'', var_quarantined = PBool False\<rparr>,
      [Log_request ''bot'' (Unexpected ''keys'' {} {''extra''})])"
  by (simp_all add: first_lines_def example_poll_keys example_poll_fields example_state_def
        one_dimension_def no_id_dimensions_def many_dimensions_def example_state_keys
        py_get_list)

lemma example_first_lines_raise:
  "first_lines (example_poll PNone example_state ver []) = (Inl ''AttributeError'', [])"
  "first_lines (example_poll many_dimensions PNone ver []) = (Inl ''TypeError'', [])"
  "first_lines (example_poll (PDict [(''id'', PInt 7)]) example_state ver [])
     = (Inl ''TypeError'', [])"
  by (simp_all add: first_lines_def example_poll_keys example_poll_fields example_state_def
        many_dimensions_def example_state_keys py_get_list)


lemma many_dimensions_count:
  "prod_list (map values_count [(''id'', PList [PStr ''bot1'']),
              (''os'', PList [PStr ''Linux'', PStr ''Ubuntu'', PStr ''Ubuntu-14.04'']),
              (''cpu'', PList [PStr ''x86'', PStr ''x86-64''])]) = 24"
  by simp


lemma post_reply:
  "fst (BotPollHandler_post e request) =
     (case fst (first_lines request) of
        Inl exn \<Rightarrow> Uncaught exn
      | Inr v \<Rightarrow>
          if var_msg v \<noteq> None \<or> py_get request ''version'' PNone \<noteq> PStr (get_bot_version e)
          then Send_response (cmd_update (get_bot_version e))
          else (case var_state v of
                  PDict st \<Rightarrow> fst (after_version_test e request v st)
                | _ \<Rightarrow> Uncaught ''AttributeError''))"
  by (cases "first_lines request")
     (simp add: BotPollHandler_post_def Let_def case_prod_beta split: sum.splits pyval.splits)

lemma post_calls:
  "snd (BotPollHandler_post e request) =
     (case fst (first_lines request) of
        Inl exn \<Rightarrow> snd (first_lines request)
      | Inr v \<Rightarrow>
          if var_msg v \<noteq> None \<or> py_get request ''version'' PNone \<noteq> PStr (get_bot_version e)
          then snd (first_lines request)
          else (case var_state v of
                  PDict st \<Rightarrow> snd (first_lines request) @ snd (after_version_test e request v st)
                | _ \<Rightarrow> snd (first_lines request)))"
  by (cases "first_lines request")
     (simp add: BotPollHandler_post_def Let_def case_prod_beta split: sum.splits pyval.splits)


lemma frozenset_keys_dict: "frozenset_keys (PDict st) = Some (map fst st)"
  by simp










text \<open>
  C8, what the handler does instead. A poll at the current version with no \<open>id\<close> among its
  dimensions is given the bot id \<open>unknown\<close>, which is true: unless it is quarantined or
  due for a restart, \<open>bot_reap_task\<close> is called for it, and when a task is reaped the
  reply is the run command with that task for bot \<open>unknown\<close>, not sleep.
\<close>

theorem missing_id_runs_as_unknown:
  assumes "fst (first_lines request) = Inr v"
    and "map_of (var_dimensions v) ''id'' = None"
    and "var_msg v = None"
    and "py_get request ''version'' PNone = PStr (get_bot_version e)"
    and "var_state v = PDict st"
    and "\<not> truthy (poll_quarantined e v)"
    and "\<not> fst (poll_needs_restart e request v st)"
    and "poll_reap e request v = Reaped props key"
  shows "var_bot_id v = PStr ''unknown''
     \<and> fst (BotPollHandler_post e request)
         = Send_response (cmd_run e props key (PStr ''unknown''))
     \<and> cmd_of (fst (BotPollHandler_post e request)) = Some (PStr ''run'')
     \<and> list_ex is_reap (snd (BotPollHandler_post e request))"
proof -
  from assms(1,2) have b: "var_bot_id v = PStr ''unknown''"
    unfolding first_lines_Inr by (auto simp: py_get_def)
  note post = post_after [OF assms(1,3,4,5)]
  have "fst (BotPollHandler_post e request)
         = Send_response (cmd_run e props key (PStr ''unknown''))"
    using assms(6-8) b by (simp add: post after_reply)
  moreover have "list_ex is_reap (snd (BotPollHandler_post e request))"
    using assms(6,7) b by (simp add: post after_calls_reap)
  ultimately show ?thesis using b by (simp add: cmd_of_simps')
qed

theorem missing_id_runs_as_unknown_witness:
  "map_of [(''os'', PList [PStr ''Linux''])] ''id'' = None
   \<and> fst (BotPollHandler_post (example_env (Reaped example_properties 7))
            (example_poll no_id_dimensions example_state ''abc123'' []))
       = Send_response (PDict
           [(''cmd'', PStr ''run''),
            (''manifest'', PDict
               [(''bot_id'', PStr ''unknown''),
                (''commands'', PList [PList [PStr ''python'', PStr ''run.py'']]),
                (''data'', PList []),
                (''env'', PDict []),
                (''host'', PStr ''https://1-dot-swarming.example.com''),
                (''hard_timeout'', PInt 3600),
                (''io_timeout'', PInt 1200),
                (''task_id'', PStr ''1d69b9f088008811'')])])
   \<and> list_ex is_reap (snd (BotPollHandler_post (example_env (Reaped example_properties 7))
            (example_poll no_id_dimensions example_state ''abc123'' [])))"
proof -
  define v where "v = \<lparr>var_msg = None, var_state = example_state,
           var_dimensions = [(''os'', PList [PStr ''Linux''])], var_bot_id = PStr ''unknown'',
           var_quarantined = PBool False\<rparr>"
  have h1: "fst (first_lines (example_poll no_id_dimensions example_state ''abc123'' []))
              = Inr v"
    by (simp add: example_first_lines v_def)
  have h2: "map_of (var_dimensions v) ''id'' = None" by (simp add: v_def)
  have h3: "var_msg v = None" by (simp add: v_def)
  have h4: "py_get (example_poll no_id_dimensions example_state ''abc123'' []) ''version''
              PNone = PStr (get_bot_version (example_env (Reaped example_properties 7)))"
    by (simp add: example_poll_fields example_env_fields)
  have h5: "var_state v = PDict [(''running_time'', PInt 120), (''sleep_streak'', PInt 3)]"
    by (simp add: v_def example_state_def)
  have h6: "\<not> truthy (poll_quarantined (example_env (Reaped example_properties 7)) v)"
    by (simp add: v_def poll_quarantined_def server_quarantine_def example_env_fields)
  have h7: "\<not> fst (poll_needs_restart (example_env (Reaped example_properties 7))
              (example_poll no_id_dimensions example_state ''abc123'' []) v
              [(''running_time'', PInt 120), (''sleep_streak'', PInt 3)])"
    by (simp add: poll_needs_restart_def example_env_fields)
  have h8: "poll_reap (example_env (Reaped example_properties 7))
              (example_poll no_id_dimensions example_state ''abc123'' []) v
            = Reaped example_properties 7"
    by (simp add: poll_reap_def example_env_fields)
  from missing_id_runs_as_unknown [OF h1 h2 h3 h4 h5 h6 h7 h8]
  show ?thesis
    by (simp add: cmd_run_def example_env_fields example_properties_def)
qed


lemma after_reply_commands:
  "cmd_of (fst (after_version_test e request v st))
     \<in> {Some (PStr ''run''), Some (PStr ''sleep''), Some (PStr ''restart'')}
   \<or> fst (after_version_test e request v st) = Abort 500 (Text ''Deadline'')
   \<or> (\<exists>exn. fst (after_version_test e request v st) = Uncaught exn)"
  by (simp add: after_reply cmd_of_simps' split: reap_outcome.splits)

lemma post_commands:
  "cmd_of (fst (BotPollHandler_post e request))
     \<in> {Some (PStr ''run''), Some (PStr ''sleep''), Some (PStr ''update''),
         Some (PStr ''restart'')}
   \<or> fst (BotPollHandler_post e request) = Abort 500 (Text ''Deadline'')
   \<or> (\<exists>exn. fst (BotPollHandler_post e request) = Uncaught exn)"
proof (cases "fst (first_lines request)")
  case (Inl exn)
  then show ?thesis by (simp add: post_reply)
next
  case (Inr v)
  show ?thesis
  proof (cases "var_msg v \<noteq> None
      \<or> py_get request ''version'' PNone \<noteq> PStr (get_bot_version e)")
    case True
    with Inr show ?thesis by (simp add: post_reply cmd_of_simps')
  next
    case False
    show ?thesis
    proof (cases "\<exists>st. var_state v = PDict st")
      case True
      then obtain st where "var_state v = PDict st" ..
      with Inr False after_reply_commands [of e request v st] show ?thesis
        by (simp add: post_reply) blast
    next
      case no: False
      with Inr False have "fst (BotPollHandler_post e request) = Uncaught ''AttributeError''"
        by (intro post_state_no_dict [of request v e]) simp_all
      then show ?thesis by simp
    qed
  qed
qed

lemma post_not_terminate:
  "cmd_of (fst (BotPollHandler_post e request)) \<noteq> Some (PStr ''terminate'')"
  using post_commands [of e request] by auto

lemma post_update_only:
  assumes "cmd_of (fst (BotPollHandler_post e request)) = Some (PStr ''update'')"
  shows "\<exists>v. fst (first_lines request) = Inr v
           \<and> (var_msg v \<noteq> None
              \<or> py_get request ''version'' PNone \<noteq> PStr (get_bot_version e))"
proof (cases "fst (first_lines request)")
  case (Inl exn)
  with assms show ?thesis by (simp add: post_reply)
next
  case (Inr v)
  show ?thesis
  proof (rule ccontr)
    assume "\<not> ?thesis"
    with Inr have gate: "var_msg v = None"
      "py_get request ''version'' PNone = PStr (get_bot_version e)" by auto
    show False
    proof (cases "\<exists>st. var_state v = PDict st")
      case True
      then obtain st where st: "var_state v = PDict st" ..
      from assms show False
        by (simp add: post_after [OF Inr gate st] after_reply cmd_of_simps'
            split: if_splits reap_outcome.splits)
    next
      case False
      with Inr gate have "fst (BotPollHandler_post e request) = Uncaught ''AttributeError''"
        by (intro post_state_no_dict [of request v e]) simp_all
      with assms show False by simp
    qed
  qed
qed

lemma post_past_gate:
  assumes "cmd_of (fst (BotPollHandler_post e request)) = Some c"
    and "c \<noteq> PStr ''update''"
  shows "\<exists>v st. fst (first_lines request) = Inr v \<and> var_state v = PDict st
            \<and> BotPollHandler_post e request =
                (fst (after_version_test e request v st),
                 snd (first_lines request) @ snd (after_version_test e request v st))"
proof (cases "fst (first_lines request)")
  case (Inl exn)
  with assms show ?thesis by (simp add: post_reply)
next
  case (Inr v)
  show ?thesis
  proof (cases "var_msg v \<noteq> None
      \<or> py_get request ''version'' PNone \<noteq> PStr (get_bot_version e)")
    case True
    with Inr assms show ?thesis by (simp add: post_reply cmd_of_simps')
  next
    case gate: False
    show ?thesis
    proof (cases "\<exists>st. var_state v = PDict st")
      case True
      then obtain st where st: "var_state v = PDict st" ..
      from gate have "var_msg v = None"
        "py_get request ''version'' PNone = PStr (get_bot_version e)" by auto
      from post_after [OF Inr this st] Inr st show ?thesis by blast
    next
      case False
      with Inr gate have "fst (BotPollHandler_post e request) = Uncaught ''AttributeError''"
        by (intro post_state_no_dict [of request v e]) simp_all
      with assms show ?thesis by simp
    qed
  qed
qed

lemma post_restart_only:
  assumes "cmd_of (fst (BotPollHandler_post e request)) = Some (PStr ''restart'')"
  shows "\<exists>v st. fst (first_lines request) = Inr v \<and> var_state v = PDict st
            \<and> fst (poll_needs_restart e request v st)"
proof -
  from post_past_gate [OF assms] obtain v st where
    v: "fst (first_lines request) = Inr v" "var_state v = PDict st"
    and p: "BotPollHandler_post e request =
                (fst (after_version_test e request v st),
                 snd (first_lines request) @ snd (after_version_test e request v st))"
    by auto
  from assms have "fst (poll_needs_restart e request v st)"
    by (simp add: p after_reply cmd_of_simps' split: if_splits reap_outcome.splits)
  with v show ?thesis by blast
qed

lemma post_run_only:
  assumes "cmd_of (fst (BotPollHandler_post e request)) = Some (PStr ''run'')"
  shows "\<exists>v props key. fst (first_lines request) = Inr v
            \<and> poll_reap e request v = Reaped props key
            \<and> list_ex is_reap (snd (BotPollHandler_post e request))"
proof -
  from post_past_gate [OF assms] obtain v st where
    v: "fst (first_lines request) = Inr v" "var_state v = PDict st"
    and p: "BotPollHandler_post e request =
                (fst (after_version_test e request v st),
                 snd (first_lines request) @ snd (after_version_test e request v st))"
    by auto
  from assms have "(\<exists>props key. poll_reap e request v = Reaped props key)
      \<and> truthy (var_bot_id v) \<and> \<not> truthy (poll_quarantined e v)
      \<and> \<not> fst (poll_needs_restart e request v st)"
    by (simp add: p after_reply cmd_of_simps' split: if_splits reap_outcome.splits)
  then show ?thesis using v by (auto simp: p after_calls_reap)
qed

lemma post_by_cases:
  assumes "fst (first_lines request) = Inr v"
    and "var_msg v = None"
    and "py_get request ''version'' PNone = PStr (get_bot_version e)"
    and "var_state v = PDict st"
  shows "fst (BotPollHandler_post e request) =
     (if \<not> truthy (var_bot_id v)
      then Send_response (PDict
             [(''cmd'', PStr ''sleep''),
              (''duration'', exponential_backoff e (py_get st ''sleep_streak'' (PInt 0))),
              (''quarantined'', PBool True)])
      else if truthy (poll_quarantined e v)
      then Send_response (PDict
             [(''cmd'', PStr ''sleep''),
              (''duration'', exponential_backoff e (py_get st ''sleep_streak'' (PInt 0))),
              (''quarantined'', poll_quarantined e v)])
      else if fst (poll_needs_restart e request v st)
      then Send_response (PDict
             [(''cmd'', PStr ''restart''),
              (''message'', PStr (snd (poll_needs_restart e request v st)))])
      else (case poll_reap e request v of
              No_task \<Rightarrow>
                Send_response (PDict
                  [(''cmd'', PStr ''sleep''),
                   (''duration'', exponential_backoff e (py_get st ''sleep_streak'' (PInt 0))),
                   (''quarantined'', PBool False)])
            | Reaped props key \<Rightarrow>
                Send_response (PDict
                  [(''cmd'', PStr ''run''),
                   (''manifest'', PDict
                      [(''bot_id'', var_bot_id v),
                       (''commands'', commands props),
                       (''data'', data props),
                       (''env'', env props),
                       (''host'', PStr (get_versioned_hosturl e)),
                       (''hard_timeout'', execution_timeout_secs props),
                       (''io_timeout'', io_timeout_secs props),
                       (''task_id'', PStr (pack_run_result_key e key))])])
            | DeadlineExceededError \<Rightarrow> Abort 500 (Text ''Deadline'')
            | Raised exn \<Rightarrow> Uncaught exn))"
  by (simp add: post_after [OF assms] after_reply cmd_sleep_def cmd_restart_def cmd_run_def
      split: reap_outcome.splits)


lemma advertised_id:
  assumes "fst (first_lines request) = Inr v"
  shows "first_or_unknown (py_get (var_dimensions v) ''id'' PNone) = Inr (var_bot_id v)"
  using assms unfolding first_lines_Inr by auto

text \<open>
  C5, as the code has it. The reply to a poll never has the command \<open>terminate\<close>. It has
  one of the four commands run, sleep, update and restart, or it is the error 500
  \<open>Deadline\<close>, or an exception leaves the handler. The update command is sent only when
  the version is not the server's or the keys of the body are not the expected ones; the
  restart command only when \<open>should_restart_bot\<close> asked for it; the run command only
  when \<open>bot_reap_task\<close> was called and reaped a task. For a poll that the handler can
  read up to its test on the version: if the keys are not the expected ones or the
  version is not the server's, the reply is exactly update with the expected version;
  otherwise, for a state that is a dict and a bot that advertises a true \<open>id\<close>
  dimension, the reply is exactly: sleep with \<open>quarantined\<close> true if the first id is
  false; else sleep with the quarantine value if the bot is quarantined; else restart
  with its message if \<open>should_restart_bot\<close> asks for it; else sleep with \<open>quarantined\<close>
  false if no task is reaped, run with the manifest of the task if one is reaped, the
  error 500 \<open>Deadline\<close> on \<open>DeadlineExceededError\<close>. What a bot that advertises no id
  is sent after the test on the version is not stated here.
\<close>

theorem poll_reply_variants:
  "cmd_of (fst (BotPollHandler_post e request)) \<noteq> Some (PStr ''terminate'')
   \<and> (cmd_of (fst (BotPollHandler_post e request))
         \<in> {Some (PStr ''run''), Some (PStr ''sleep''), Some (PStr ''update''),
             Some (PStr ''restart'')}
       \<or> fst (BotPollHandler_post e request) = Abort 500 (Text ''Deadline'')
       \<or> (\<exists>exn. fst (BotPollHandler_post e request) = Uncaught exn))
   \<and> (cmd_of (fst (BotPollHandler_post e request)) = Some (PStr ''update'') \<longrightarrow>
         (\<exists>v. fst (first_lines request) = Inr v
            \<and> (var_msg v \<noteq> None
               \<or> py_get request ''version'' PNone \<noteq> PStr (get_bot_version e))))
   \<and> (cmd_of (fst (BotPollHandler_post e request)) = Some (PStr ''restart'') \<longrightarrow>
         (\<exists>v st. fst (first_lines request) = Inr v \<and> var_state v = PDict st
            \<and> fst (poll_needs_restart e request v st)))
   \<and> (cmd_of (fst (BotPollHandler_post e request)) = Some (PStr ''run'') \<longrightarrow>
         (\<exists>v props key. fst (first_lines request) = Inr v
            \<and> poll_reap e request v = Reaped props key
            \<and> list_ex is_reap (snd (BotPollHandler_post e request))))
   \<and> (\<forall>v st. fst (first_lines request) = Inr v \<longrightarrow>
         (var_msg v \<noteq> None \<or> py_get request ''version'' PNone \<noteq> PStr (get_bot_version e)
            \<longrightarrow> fst (BotPollHandler_post e request) =
                  Send_response (PDict [(''cmd'', PStr ''update''),
                                        (''version'', PStr (get_bot_version e))]))
       \<and> (var_msg v = None \<and> py_get request ''version'' PNone = PStr (get_bot_version e)
            \<and> var_state v = PDict st \<and> truthy (py_get (var_dimensions v) ''id'' PNone)
            \<longrightarrow> fst (BotPollHandler_post e request) =
     (if \<not> truthy (var_bot_id v)
      then Send_response (PDict
             [(''cmd'', PStr ''sleep''),
              (''duration'', exponential_backoff e (py_get st ''sleep_streak'' (PInt 0))),
              (''quarantined'', PBool True)])
      else if truthy (poll_quarantined e v)
      then Send_response (PDict
             [(''cmd'', PStr ''sleep''),
              (''duration'', exponential_backoff e (py_get st ''sleep_streak'' (PInt 0))),
              (''quarantined'', poll_quarantined e v)])
      else if fst (poll_needs_restart e request v st)
      then Send_response (PDict
             [(''cmd'', PStr ''restart''),
              (''message'', PStr (snd (poll_needs_restart e request v st)))])
      else (case poll_reap e request v of
              No_task \<Rightarrow>
                Send_response (PDict
                  [(''cmd'', PStr ''sleep''),
                   (''duration'', exponential_backoff e (py_get st ''sleep_streak'' (PInt 0))),
                   (''quarantined'', PBool False)])
            | Reaped props key \<Rightarrow>
                Send_response (PDict
                  [(''cmd'', PStr ''run''),
                   (''manifest'', PDict
                      [(''bot_id'', var_bot_id v),
                       (''commands'', commands props),
                       (''data'', data props),
                       (''env'', env props),
                       (''host'', PStr (get_versioned_hosturl e)),
                       (''hard_timeout'', execution_timeout_secs props),
                       (''io_timeout'', io_timeout_secs props),
                       (''task_id'', PStr (pack_run_result_key e key))])])
            | DeadlineExceededError \<Rightarrow> Abort 500 (Text ''Deadline'')
            | Raised exn \<Rightarrow> Uncaught exn))))"
proof (intro conjI allI impI)
  show "cmd_of (fst (BotPollHandler_post e request)) \<noteq> Some (PStr ''terminate'')"
    by (rule post_not_terminate)
next
  show "cmd_of (fst (BotPollHandler_post e request))
         \<in> {Some (PStr ''run''), Some (PStr ''sleep''), Some (PStr ''update''),
             Some (PStr ''restart'')}
       \<or> fst (BotPollHandler_post e request) = Abort 500 (Text ''Deadline'')
       \<or> (\<exists>exn. fst (BotPollHandler_post e request) = Uncaught exn)"
    by (rule post_commands)
next
  assume "cmd_of (fst (BotPollHandler_post e request)) = Some (PStr ''update'')"
  then show "\<exists>v. fst (first_lines request) = Inr v
            \<and> (var_msg v \<noteq> None
               \<or> py_get request ''version'' PNone \<noteq> PStr (get_bot_version e))"
    by (rule post_update_only)
next
  assume "cmd_of (fst (BotPollHandler_post e request)) = Some (PStr ''restart'')"
  then show "\<exists>v st. fst (first_lines request) = Inr v \<and> var_state v = PDict st
            \<and> fst (poll_needs_restart e request v st)"
    by (rule post_restart_only)
next
  assume "cmd_of (fst (BotPollHandler_post e request)) = Some (PStr ''run'')"
  then show "\<exists>v props key. fst (first_lines request) = Inr v
            \<and> poll_reap e request v = Reaped props key
            \<and> list_ex is_reap (snd (BotPollHandler_post e request))"
    by (rule post_run_only)
next
  fix v
  assume "fst (first_lines request) = Inr v"
    and "var_msg v \<noteq> None \<or> py_get request ''version'' PNone \<noteq> PStr (get_bot_version e)"
  then show "fst (BotPollHandler_post e request) =
                  Send_response (PDict [(''cmd'', PStr ''update''),
                                        (''version'', PStr (get_bot_version e))])"
    by (simp add: post_update cmd_update_def)
next
  fix v st
  assume v: "fst (first_lines request) = Inr v"
    and h: "var_msg v = None \<and> py_get request ''version'' PNone = PStr (get_bot_version e)
            \<and> var_state v = PDict st \<and> truthy (py_get (var_dimensions v) ''id'' PNone)"
  from h have h1: "var_msg v = None"
    and h2: "py_get request ''version'' PNone = PStr (get_bot_version e)"
    and h3: "var_state v = PDict st" by simp_all
  show "fst (BotPollHandler_post e request) =
     (if \<not> truthy (var_bot_id v)
      then Send_response (PDict
             [(''cmd'', PStr ''sleep''),
              (''duration'', exponential_backoff e (py_get st ''sleep_streak'' (PInt 0))),
              (''quarantined'', PBool True)])
      else if truthy (poll_quarantined e v)
      then Send_response (PDict
             [(''cmd'', PStr ''sleep''),
              (''duration'', exponential_backoff e (py_get st ''sleep_streak'' (PInt 0))),
              (''quarantined'', poll_quarantined e v)])
      else if fst (poll_needs_restart e request v st)
      then Send_response (PDict
             [(''cmd'', PStr ''restart''),
              (''message'', PStr (snd (poll_needs_restart e request v st)))])
      else (case poll_reap e request v of
              No_task \<Rightarrow>
                Send_response (PDict
                  [(''cmd'', PStr ''sleep''),
                   (''duration'', exponential_backoff e (py_get st ''sleep_streak'' (PInt 0))),
                   (''quarantined'', PBool False)])
            | Reaped props key \<Rightarrow>
                Send_response (PDict
                  [(''cmd'', PStr ''run''),
                   (''manifest'', PDict
                      [(''bot_id'', var_bot_id v),
                       (''commands'', commands props),
                       (''data'', data props),
                       (''env'', env props),
                       (''host'', PStr (get_versioned_hosturl e)),
                       (''hard_timeout'', execution_timeout_secs props),
                       (''io_timeout'', io_timeout_secs props),
                       (''task_id'', PStr (pack_run_result_key e key))])])
            | DeadlineExceededError \<Rightarrow> Abort 500 (Text ''Deadline'')
            | Raised exn \<Rightarrow> Uncaught exn))"
    by (rule post_by_cases [OF v h1 h2 h3])
qed

theorem poll_reply_variants_witness:
  "fst (first_lines (example_poll one_dimension example_state ''abc123'' []))
     = Inr \<lparr>var_msg = None, var_state = example_state,
            var_dimensions = [(''id'', PList [PStr ''bot1''])], var_bot_id = PStr ''bot1'',
            var_quarantined = PBool False\<rparr>
   \<and> truthy (py_get [(''id'', PList [PStr ''bot1''])] ''id'' PNone)
   \<and> fst (BotPollHandler_post (example_env (Reaped example_properties 7))
            (example_poll one_dimension example_state ''abc123'' []))
       = Send_response (PDict
           [(''cmd'', PStr ''run''),
            (''manifest'', PDict
               [(''bot_id'', PStr ''bot1''),
                (''commands'', PList [PList [PStr ''python'', PStr ''run.py'']]),
                (''data'', PList []),
                (''env'', PDict []),
                (''host'', PStr ''https://1-dot-swarming.example.com''),
                (''hard_timeout'', PInt 3600),
                (''io_timeout'', PInt 1200),
                (''task_id'', PStr ''1d69b9f088008811'')])])
   \<and> cmd_of (fst (BotPollHandler_post (example_env (Reaped example_properties 7))
            (example_poll one_dimension example_state ''abc123'' [])))
       \<noteq> Some (PStr ''terminate'')"
proof -
  define v where "v = \<lparr>var_msg = None, var_state = example_state,
           var_dimensions = [(''id'', PList [PStr ''bot1''])], var_bot_id = PStr ''bot1'',
           var_quarantined = PBool False\<rparr>"
  note T = poll_reply_variants [where e = "example_env (Reaped example_properties 7)"
      and request = "example_poll one_dimension example_state ''abc123'' []"]
  have h1: "fst (first_lines (example_poll one_dimension example_state ''abc123'' []))
              = Inr v"
    by (simp add: example_first_lines v_def)
  have h2: "var_msg v = None
      \<and> py_get (example_poll one_dimension example_state ''abc123'' []) ''version'' PNone
          = PStr (get_bot_version (example_env (Reaped example_properties 7)))
      \<and> var_state v = PDict [(''running_time'', PInt 120), (''sleep_streak'', PInt 3)]
      \<and> truthy (py_get (var_dimensions v) ''id'' PNone)"
    by (simp add: v_def example_poll_fields example_env_fields example_state_def py_get_list)
  have q: "\<not> truthy (poll_quarantined (example_env (Reaped example_properties 7)) v)"
    by (simp add: v_def poll_quarantined_def server_quarantine_def example_env_fields)
  have r: "\<not> fst (poll_needs_restart (example_env (Reaped example_properties 7))
              (example_poll one_dimension example_state ''abc123'' []) v
              [(''running_time'', PInt 120), (''sleep_streak'', PInt 3)])"
    by (simp add: poll_needs_restart_def example_env_fields)
  have p: "poll_reap (example_env (Reaped example_properties 7))
              (example_poll one_dimension example_state ''abc123'' []) v
            = Reaped example_properties 7"
    by (simp add: poll_reap_def example_env_fields)
  have b: "truthy (var_bot_id v)" by (simp add: v_def)
  note T1 = T [THEN conjunct1]
  note T6 = T [THEN conjunct2, THEN conjunct2, THEN conjunct2, THEN conjunct2, THEN conjunct2,
      THEN spec, THEN spec, THEN mp, OF h1, THEN conjunct2, THEN mp, OF h2]
  from T6 q r p b
  have "fst (BotPollHandler_post (example_env (Reaped example_properties 7))
            (example_poll one_dimension example_state ''abc123'' []))
       = Send_response (PDict
           [(''cmd'', PStr ''run''),
            (''manifest'', PDict
               [(''bot_id'', PStr ''bot1''),
                (''commands'', PList [PList [PStr ''python'', PStr ''run.py'']]),
                (''data'', PList []),
                (''env'', PDict []),
                (''host'', PStr ''https://1-dot-swarming.example.com''),
                (''hard_timeout'', PInt 3600),
                (''io_timeout'', PInt 1200),
                (''task_id'', PStr ''1d69b9f088008811'')])])"
    by (simp add: example_env_fields example_properties_def v_def)
  with T1 h1 show ?thesis by (simp add: v_def py_get_list)
qed

text \<open>
  C5 as stated fails: a reaped task with no command at all, as a request to shut the
  bot down would be, is sent as run (the handler has no \<open>terminate\<close>); a poll during which
  the scheduler runs out of time, or whose \<open>dimensions\<close> are null, is answered with an
  error and no command; and a poll at the current version with a superfluous key is
  answered with update.
\<close>

theorem poll_reply_variants_counterexample:
  "fst (BotPollHandler_post (example_env (Reaped shutdown_properties 7))
          (example_poll one_dimension example_state ''abc123'' []))
     = Send_response (PDict
           [(''cmd'', PStr ''run''),
            (''manifest'', PDict
               [(''bot_id'', PStr ''bot1''),
                (''commands'', PList []),
                (''data'', PList []),
                (''env'', PDict []),
                (''host'', PStr ''https://1-dot-swarming.example.com''),
                (''hard_timeout'', PInt 0),
                (''io_timeout'', PInt 0),
                (''task_id'', PStr ''1d69b9f088008811'')])])
   \<and> fst (BotPollHandler_post (example_env DeadlineExceededError)
            (example_poll one_dimension example_state ''abc123'' []))
       = Abort 500 (Text ''Deadline'')
   \<and> cmd_of (fst (BotPollHandler_post (example_env DeadlineExceededError)
            (example_poll one_dimension example_state ''abc123'' []))) = None
   \<and> fst (BotPollHandler_post (example_env No_task)
            (example_poll PNone example_state ''abc123'' [])) = Uncaught ''AttributeError''
   \<and> py_get (example_poll many_dimensions example_state ''abc123'' [(''extra'', PNone)])
       ''version'' PNone = PStr (get_bot_version (example_env No_task))
   \<and> fst (BotPollHandler_post (example_env No_task)
            (example_poll many_dimensions example_state ''abc123'' [(''extra'', PNone)]))
       = Send_response (PDict [(''cmd'', PStr ''update''), (''version'', PStr ''abc123'')])"
  by (simp add: post_reply example_first_lines example_first_lines_raise
        example_poll_fields example_env_fields cmd_update_def,
      simp add: example_state_def after_reply poll_quarantined_def server_quarantine_def
        poll_needs_restart_def poll_reap_def example_env_fields cmd_run_def
        shutdown_properties_def)

subsection \<open>Cancelling\<close>

text \<open>
  C1, what the cancel handler does instead: whatever the state of the result summary
  that the key names, terminal or not, \<open>CancelHandler.post\<close> writes \<open>CANCELED\<close> and a
  new \<open>abandoned_ts\<close> over it.
\<close>

theorem cancel_overwrites_state:
  assumes "unpack_result_summary_key e runner_key = Some key"
    and "requests ds (result_summary_key_to_request_key e key) = Some request"
    and "tasks_to_run ds (request_to_task_to_run_key e request) = Some task"
    and "summaries ds key = Some summary"
  shows "\<exists>ds'. CancelHandler_post e now runner_key ds = (Write 200 ''Runner canceled.'', ds')
     \<and> summaries ds' key = Some (summary\<lparr>state := CANCELED, abandoned_ts := Some now\<rparr>)"
  using assms by (simp add: CancelHandler_post_def Let_def)

theorem cancel_overwrites_state_witness:
  "terminal (state completed_summary)
   \<and> summaries (example_datastore completed_summary) 16 = Some completed_summary
   \<and> state completed_summary = COMPLETED
   \<and> (\<exists>ds'. CancelHandler_post example_cancel_env 200 ''10''
               (example_datastore completed_summary) = (Write 200 ''Runner canceled.'', ds')
        \<and> map_option state (summaries ds' 16) = Some CANCELED)"
proof -
  let ?e = example_cancel_env and ?ds = "example_datastore completed_summary"
  have h1: "unpack_result_summary_key ?e ''10'' = Some 16"
    by (simp add: example_cancel_env_def)
  have h2: "requests ?ds (result_summary_key_to_request_key ?e 16)
              = Some \<lparr>name = ''task'', user = ''joe'', priority = 100,
                      properties = example_properties\<rparr>"
    by (simp add: example_cancel_env_def example_datastore_def)
  have h3: "tasks_to_run ?ds (request_to_task_to_run_key ?e
              \<lparr>name = ''task'', user = ''joe'', priority = 100,
               properties = example_properties\<rparr>)
              = Some \<lparr>queue_number = None, reaped_ts = Some 100\<rparr>"
    by (simp add: example_cancel_env_def example_datastore_def)
  have h4: "summaries ?ds 16 = Some completed_summary"
    by (simp add: example_datastore_def)
  from cancel_overwrites_state [OF h1 h2 h3 h4, of 200]
  obtain ds' where "CancelHandler_post ?e 200 ''10'' ?ds = (Write 200 ''Runner canceled.'', ds')"
    and "summaries ds' 16
           = Some (completed_summary\<lparr>state := CANCELED, abandoned_ts := Some 200\<rparr>)"
    by blast
  then have "\<exists>ds'. CancelHandler_post ?e 200 ''10'' ?ds = (Write 200 ''Runner canceled.'', ds')
        \<and> map_option state (summaries ds' 16) = Some CANCELED"
    by simp
  with h4 show ?thesis by (simp add: completed_summary_def)
qed

subsection \<open>Task update\<close>

lemma run_attempts_bound: "run_attempts commits i n = Some j \<Longrightarrow> j < i + n"
  by (induction commits i n rule: run_attempts.induct) (auto split: if_splits)

lemma ndb_transaction_result:
  assumes "ndb_transaction commits retries callback ds = (r, attempts)"
  shows "attempts \<le> 1 + retries \<and> (r = None \<or> r = Some (callback ds))"
proof (cases "run_attempts commits 0 (1 + retries)")
  case None
  with assms show ?thesis by (simp add: ndb_transaction_def del: run_attempts.simps)
next
  case (Some j)
  from run_attempts_bound [OF Some] have "j < 1 + retries" by simp
  with assms Some show ?thesis by (auto simp add: ndb_transaction_def simp del: run_attempts.simps)
qed

lemma filter_is_transaction_reports: "filter is_transaction (map Report ms) = []"
  by (induction ms) simp_all

lemma example_update_call:
  "update_call example_update_env (example_update caller) (example_datastore summary) =
     Inr (if caller = ''bot1''
          then Inr [Put_run_result 17 (example_run_result\<lparr>last_update_ts := 140\<rparr>),
                    Put_output_chunk (17, 0, 0) ''hi'']
          else Inl ''Bot id mismatch'')"
  by (simp add: update_call_def example_update_env_def example_update_def
        example_bot_update_task_def example_datastore_def example_run_result_def
        log_unexpected_subset_keys_def UPDATE_ACCEPTED_KEYS_def UPDATE_REQUIRED_KEYS_def
        py_get_def Let_def)

lemma ndb_transaction_one_retry:
  "ndb_transaction commits (Suc 0) callback ds =
     (if commits 0 then (Some (callback ds), Suc 0)
      else if commits (Suc 0) then (Some (callback ds), 2)
      else (None, 2))"
  by (simp add: ndb_transaction_def)

lemma example_put_multi:
  "run_results (put_multi [Put_run_result 17 (example_run_result\<lparr>last_update_ts := 140\<rparr>),
                           Put_output_chunk (17, 0, 0) ''hi'']
                  (example_datastore summary)) 17
     = Some (example_run_result\<lparr>last_update_ts := 140\<rparr>)"
  "output_chunks (put_multi [Put_run_result 17 (example_run_result\<lparr>last_update_ts := 140\<rparr>),
                             Put_output_chunk (17, 0, 0) ''hi'']
                    (example_datastore summary)) (17, 0, 0)
     = Some ''hi''"
  by (simp_all add: put_multi_def)

text \<open>
  C2. When \<open>bot_update_task\<close> yields entities, \<open>BotTaskUpdateHandler.post\<close> makes exactly
  one transaction of \<open>put_multi\<close> on all of them, with one retry: if the first or the
  second attempt commits, the datastore has every entity put and the reply is \<open>ok\<close>; if
  neither commits, the datastore is as it was found and \<open>TransactionFailedError\<close>
  leaves the handler. An update that \<open>bot_update_task\<close> rejects is answered with 400
  and its message and reported, with no transaction and the datastore unchanged; a
  request that ends before \<open>bot_update_task\<close> is called leaves the datastore unchanged
  too. So in every case the datastore is left as it was found or with every entity of
  the call put, by at most one transaction of at most two attempts, which committed
  exactly when the reply is \<open>ok\<close>.
\<close>

theorem update_commits_all_or_nothing:
  "(case BotTaskUpdateHandler_post e commits request ds of
      (reply, calls, ds') \<Rightarrow>
        ((ds' = ds \<and> reply \<noteq> Send_response (PDict [(''ok'', PBool True)]))
         \<or> (\<exists>entities. update_call e request ds = Inr (Inr entities)
               \<and> ds' = put_multi entities ds
               \<and> reply = Send_response (PDict [(''ok'', PBool True)])))
        \<and> length (filter is_transaction calls) \<le> 1
        \<and> (\<forall>attempts committed. Transaction attempts committed \<in> set calls \<longrightarrow>
              attempts \<le> 2
              \<and> (committed \<longleftrightarrow> reply = Send_response (PDict [(''ok'', PBool True)])))
        \<and> (\<forall>err. update_call e request ds = Inr (Inl err) \<longrightarrow>
              reply = Abort 400 (Text err) \<and> ds' = ds \<and> filter is_transaction calls = []
              \<and> calls = [Report (Failed_to_update err)])
        \<and> (\<forall>entities. update_call e request ds = Inr (Inr entities) \<longrightarrow>
              (if commits 0
               then reply = Send_response (PDict [(''ok'', PBool True)])
                    \<and> calls = [Transaction 1 True] \<and> ds' = put_multi entities ds
               else if commits 1
               then reply = Send_response (PDict [(''ok'', PBool True)])
                    \<and> calls = [Transaction 2 True] \<and> ds' = put_multi entities ds
               else reply = Uncaught ''TransactionFailedError''
                    \<and> calls = [Transaction 2 False] \<and> ds' = ds))
        \<and> (\<forall>early reports. update_call e request ds = Inl (early, reports) \<longrightarrow>
              reply = early \<and> calls = map Report reports \<and> ds' = ds))"
proof (cases "update_call e request ds")
  case (Inl a)
  obtain reply reports where a: "a = (reply, reports)" by (cases a)
  have "reply \<noteq> Send_response (PDict [(''ok'', PBool True)])"
    using Inl a
    by (auto simp: update_call_def Let_def split: option.splits)
  with Inl a show ?thesis
    by (auto simp: BotTaskUpdateHandler_post_def filter_is_transaction_reports)
next
  case (Inr outcome)
  show ?thesis
  proof (cases outcome)
    case (Inl err)
    with Inr show ?thesis by (simp add: BotTaskUpdateHandler_post_def)
  next
    case inr: (Inr entities)
    with Inr show ?thesis
      by (simp add: BotTaskUpdateHandler_post_def ndb_transaction_one_retry)
  qed
qed

theorem update_commits_all_or_nothing_witness:
  "update_call example_update_env (example_update ''bot1'') (example_datastore completed_summary)
     = Inr (Inr [Put_run_result 17 (example_run_result\<lparr>last_update_ts := 140\<rparr>),
                 Put_output_chunk (17, 0, 0) ''hi''])
   \<and> fst (BotTaskUpdateHandler_post example_update_env (\<lambda>i. i = 1) (example_update ''bot1'')
            (example_datastore completed_summary)) = Send_response (PDict [(''ok'', PBool True)])
   \<and> fst (snd (BotTaskUpdateHandler_post example_update_env (\<lambda>i. i = 1)
            (example_update ''bot1'') (example_datastore completed_summary)))
       = [Transaction 2 True]
   \<and> run_results (snd (snd (BotTaskUpdateHandler_post example_update_env (\<lambda>i. i = 1)
            (example_update ''bot1'') (example_datastore completed_summary)))) 17
       = Some (example_run_result\<lparr>last_update_ts := 140\<rparr>)
   \<and> output_chunks (snd (snd (BotTaskUpdateHandler_post example_update_env (\<lambda>i. i = 1)
            (example_update ''bot1'') (example_datastore completed_summary)))) (17, 0, 0)
       = Some ''hi''
   \<and> BotTaskUpdateHandler_post example_update_env (\<lambda>i. False) (example_update ''bot1'')
            (example_datastore completed_summary)
       = (Uncaught ''TransactionFailedError'', [Transaction 2 False],
          example_datastore completed_summary)
   \<and> update_call example_update_env (example_update ''bot2'') (example_datastore completed_summary)
     = Inr (Inl ''Bot id mismatch'')
   \<and> BotTaskUpdateHandler_post example_update_env (\<lambda>i. True) (example_update ''bot2'')
            (example_datastore completed_summary)
       = (Abort 400 (Text ''Bot id mismatch''), [Report (Failed_to_update ''Bot id mismatch'')],
          example_datastore completed_summary)"
proof -
  let ?ds = "example_datastore completed_summary"
  let ?entities = "[Put_run_result 17 (example_run_result\<lparr>last_update_ts := 140\<rparr>),
                    Put_output_chunk (17, 0, 0) ''hi'']"
  let ?retry = "BotTaskUpdateHandler_post example_update_env (\<lambda>i. i = 1)
                  (example_update ''bot1'') ?ds"
  let ?fail = "BotTaskUpdateHandler_post example_update_env (\<lambda>i. False)
                  (example_update ''bot1'') ?ds"
  let ?other = "BotTaskUpdateHandler_post example_update_env (\<lambda>i. True)
                  (example_update ''bot2'') ?ds"
  have h1: "update_call example_update_env (example_update ''bot1'') ?ds = Inr (Inr ?entities)"
    by (simp add: example_update_call)
  have h2: "update_call example_update_env (example_update ''bot2'') ?ds
              = Inr (Inl ''Bot id mismatch'')"
    by (simp add: example_update_call)
  obtain r1 c1 d1 where p1: "?retry = (r1, c1, d1)" by (cases ?retry)
  from update_commits_all_or_nothing [where e = example_update_env and commits = "\<lambda>i. i = 1"
      and request = "example_update ''bot1''" and ds = ?ds] h1 p1
  have "r1 = Send_response (PDict [(''ok'', PBool True)]) \<and> c1 = [Transaction 2 True]
        \<and> d1 = put_multi ?entities ?ds"
    by simp
  with p1 have retry: "?retry = (Send_response (PDict [(''ok'', PBool True)]),
      [Transaction 2 True], put_multi ?entities ?ds)" by simp
  obtain r2 c2 d2 where p2: "?fail = (r2, c2, d2)" by (cases ?fail)
  from update_commits_all_or_nothing [where e = example_update_env and commits = "\<lambda>i. False"
      and request = "example_update ''bot1''" and ds = ?ds] h1 p2
  have "r2 = Uncaught ''TransactionFailedError'' \<and> c2 = [Transaction 2 False] \<and> d2 = ?ds"
    by simp
  with p2 have fail: "?fail = (Uncaught ''TransactionFailedError'', [Transaction 2 False], ?ds)"
    by simp
  obtain r3 c3 d3 where p3: "?other = (r3, c3, d3)" by (cases ?other)
  from update_commits_all_or_nothing [where e = example_update_env and commits = "\<lambda>i. True"
      and request = "example_update ''bot2''" and ds = ?ds] h2 p3
  have "r3 = Abort 400 (Text ''Bot id mismatch'')
        \<and> c3 = [Report (Failed_to_update ''Bot id mismatch'')] \<and> d3 = ?ds"
    by simp
  with p3 have other: "?other = (Abort 400 (Text ''Bot id mismatch''),
      [Report (Failed_to_update ''Bot id mismatch'')], ?ds)" by simp
  show ?thesis
    unfolding retry fail other
    using h1 h2 by (simp add: example_put_multi)
qed

subsection \<open>The bot that reports is the bot that owns the task\<close>

text \<open>
  C3. A task error report whose \<open>id\<close> is not the \<open>bot_id\<close> of the run result is
  answered with 400, and a legacy result post whose \<open>id\<close> is not that \<open>bot_id\<close> with 404;
  in both cases the datastore is left as it was (\<open>bot_kill_task\<close>, \<open>StoreResults\<close> and
  \<open>bot_update_task\<close> are not reached).
\<close>

theorem bot_id_mismatch_rejected:
  "(error_unpack_run_result_key e (py_get request ''task_id'' PNone) = Some key
      \<and> run_results ds key = Some run_result
      \<and> py_get request ''id'' PNone \<noteq> PStr (run_bot_id run_result)
    \<longrightarrow> (\<exists>msg calls. BotTaskErrorHandler_post e request ds = (Abort 400 msg, calls, ds)))
   \<and> (legacy_unpack_run_result_key e' packed = Some key
      \<and> run_results ds key = Some run_result
      \<and> unquote_plus e' id' \<noteq> run_bot_id run_result
    \<longrightarrow> ResultHandler_post e' packed id' x result_string ds
          = (Abort 404 (Expected_bot_id (run_bot_id run_result) (unquote_plus e' id')), ds))"
  by (auto simp: BotTaskErrorHandler_post_def ResultHandler_post_def Let_def
      split: prod.splits option.splits)

theorem bot_id_mismatch_rejected_witness:
  "error_unpack_run_result_key example_error_env
       (py_get (example_task_error ''bot2'') ''task_id'' PNone) = Some 17
   \<and> legacy_unpack_run_result_key example_result_env ''11'' = Some 17
   \<and> run_results (example_datastore completed_summary) 17 = Some example_run_result
   \<and> py_get (example_task_error ''bot2'') ''id'' PNone \<noteq> PStr (run_bot_id example_run_result)
   \<and> unquote_plus example_result_env ''bot2'' \<noteq> run_bot_id example_run_result
   \<and> (\<exists>msg calls. BotTaskErrorHandler_post example_error_env (example_task_error ''bot2'')
          (example_datastore completed_summary)
        = (Abort 400 msg, calls, example_datastore completed_summary))
   \<and> ResultHandler_post example_result_env ''11'' ''bot2'' ''0'' ''out''
          (example_datastore completed_summary)
        = (Abort 404 (Expected_bot_id ''bot1'' ''bot2''), example_datastore completed_summary)"
proof -
  have h1: "error_unpack_run_result_key example_error_env
       (py_get (example_task_error ''bot2'') ''task_id'' PNone) = Some 17"
    by (simp add: example_error_env_def example_task_error_def py_get_def)
  have h2: "legacy_unpack_run_result_key example_result_env ''11'' = Some 17"
    by (simp add: example_result_env_def)
  have h3: "run_results (example_datastore completed_summary) 17 = Some example_run_result"
    by (simp add: example_datastore_def)
  have h4: "py_get (example_task_error ''bot2'') ''id'' PNone
              \<noteq> PStr (run_bot_id example_run_result)"
    by (simp add: example_task_error_def py_get_def example_run_result_def)
  have h5: "unquote_plus example_result_env ''bot2'' \<noteq> run_bot_id example_run_result"
    by (simp add: example_result_env_def example_run_result_def)
  have u: "unquote_plus example_result_env ''bot2'' = ''bot2''"
    by (simp add: example_result_env_def)
  have b: "run_bot_id example_run_result = ''bot1''"
    by (simp add: example_run_result_def)
  from bot_id_mismatch_rejected [where e = example_error_env
      and request = "example_task_error ''bot2''" and key = 17
      and ds = "example_datastore completed_summary" and run_result = example_run_result
      and e' = example_result_env and packed = "''11''" and id' = "''bot2''" and x = "''0''"
      and result_string = "''out''"] h1 h2 h3 h4 h5
  show ?thesis by (simp add: u b)
qed

subsection \<open>The bot: quarantine\<close>

lemma set_quarantined_kept:
  "QUARANTINED p = Some r \<Longrightarrow> r \<noteq> [] \<Longrightarrow> QUARANTINED (set_quarantined x p) = Some r"
  by (simp add: set_quarantined_def)

lemma set_quarantined_first:
  "QUARANTINED p = None \<or> QUARANTINED p = Some [] \<Longrightarrow>
     QUARANTINED (set_quarantined reason p) = Some reason"
  by (auto simp: set_quarantined_def)

lemma call_hook_safe_kept:
  "QUARANTINED p = Some r \<Longrightarrow> r \<noteq> [] \<Longrightarrow>
     QUARANTINED (snd (call_hook_safe h n hook p)) = Some r"
  by (cases hook) (simp_all add: call_hook_safe_def Let_def set_quarantined_kept)

lemma get_dimensions_kept:
  assumes "QUARANTINED p = Some r" and "r \<noteq> []"
  shows "QUARANTINED (snd (get_dimensions h hook p)) = Some r"
proof -
  obtain out p1 where c: "call_hook_safe h ''get_dimensions'' hook p = (out, p1)"
    by (cases "call_hook_safe h ''get_dimensions'' hook p")
  with call_hook_safe_kept [OF assms, of h "''get_dimensions''" hook]
  have q1: "QUARANTINED p1 = Some r" by simp
  show ?thesis
    using c q1 assms(2)
    by (cases out)
       (simp_all add: get_dimensions_def Let_def set_quarantined_kept split: sum.splits)
qed

lemma quarantine_state_kept:
  "QUARANTINED p = Some r \<Longrightarrow> r \<noteq> [] \<Longrightarrow>
     QUARANTINED (snd (quarantine_state h d p)) = Some r"
  by (simp add: quarantine_state_def Let_def set_quarantined_kept)

lemma disk_quarantine_kept:
  assumes "QUARANTINED p = Some r" and "r \<noteq> []"
  shows "QUARANTINED (snd (disk_quarantine h sh d p)) = Some r"
  using assms call_hook_safe_kept [OF assms, of h "''get_settings''" sh]
  by (simp add: disk_quarantine_def Let_def case_prod_beta split: sum.splits)

lemma get_state_kept:
  assumes "QUARANTINED p = Some r" and "r \<noteq> []"
  shows "QUARANTINED (snd (get_state h hook sh n p)) = Some r"
proof -
  obtain out p1 where c: "call_hook_safe h ''get_state'' hook p = (out, p1)"
    by (cases "call_hook_safe h ''get_state'' hook p")
  with call_hook_safe_kept [OF assms, of h "''get_state''" hook]
  have q1: "QUARANTINED p1 = Some r" by simp
  have "QUARANTINED (snd (disk_quarantine h sh d' (snd (quarantine_state h d p1)))) = Some r"
    for d d'
    by (rule disk_quarantine_kept [OF quarantine_state_kept [OF q1 assms(2)] assms(2)])
  then show ?thesis
    using c assms(2) set_quarantined_kept [OF q1 assms(2)]
    by (cases out) (simp_all add: get_state_def Let_def case_prod_beta)
qed

lemma register_extra_bot_config_kept:
  "QUARANTINED p = Some r \<Longrightarrow> r \<noteq> [] \<Longrightarrow>
     QUARANTINED (register_extra_bot_config c p) = Some r"
  by (cases c) (simp_all add: register_extra_bot_config_def set_quarantined_kept)

lemma py_get_update:
  "py_get (AList.update k v d) k' dflt = (if k' = k then v else py_get d k' dflt)"
  by (simp add: py_get_def update_conv')

lemma quarantine_state_marks:
  "QUARANTINED p = Some r \<Longrightarrow> r \<noteq> [] \<Longrightarrow>
     truthy (py_get (fst (quarantine_state h d p)) ''quarantined'' PNone)"
  by (simp add: quarantine_state_def Let_def set_quarantined_kept py_get_update)

lemma disk_quarantine_marks:
  "truthy (py_get d ''quarantined'' PNone) \<Longrightarrow> disk_quarantine h sh d p = (Inr d, p)"
  by (simp add: disk_quarantine_def)

lemma get_state_marks:
  assumes "QUARANTINED p = Some r" and "r \<noteq> []"
    and "get_state h hook sh n p = (Inr st, p')"
  shows "truthy (py_get st ''quarantined'' PNone)"
proof -
  obtain out p1 where c: "call_hook_safe h ''get_state'' hook p = (out, p1)"
    by (cases "call_hook_safe h ''get_state'' hook p")
  with call_hook_safe_kept [OF assms(1,2), of h "''get_state''" hook]
  have q1: "QUARANTINED p1 = Some r" by simp
  show ?thesis
  proof (cases out)
    case (PDict d)
    obtain d1 p2 where m: "quarantine_state h d p1 = (d1, p2)"
      by (cases "quarantine_state h d p1")
    with quarantine_state_marks [OF q1 assms(2), of h d]
    have "truthy (py_get d1 ''quarantined'' PNone)" by simp
    then have t: "truthy (py_get (AList.update ''sleep_streak'' (PInt n) d1) ''quarantined'' PNone)"
      by (simp add: py_get_update)
    from assms(3) c PDict m
    have "disk_quarantine h sh (AList.update ''sleep_streak'' (PInt n) d1) p2 = (Inr st, p')"
      by (simp add: get_state_def Let_def)
    with t show ?thesis by (simp add: disk_quarantine_marks)
  qed (use assms(3) c in \<open>simp_all add: get_state_def Let_def\<close>)
qed

subsection \<open>The bot: main loop\<close>

lemma set_quarantined_loop [simp]:
  "quit_bit (set_quarantined r (st::bot_loop)) = quit_bit st"
  "consecutive_sleeps (set_quarantined r st) = consecutive_sleeps st"
  by (simp_all add: set_quarantined_def)

lemma call_hook_safe_loop:
  "quit_bit (snd (call_hook_safe h n hook (st::bot_loop))) = quit_bit st"
  "consecutive_sleeps (snd (call_hook_safe h n hook st)) = consecutive_sleeps st"
  by (cases hook; simp add: call_hook_safe_def Let_def)+

lemma get_dimensions_loop:
  "quit_bit (snd (get_dimensions h hook (st::bot_loop))) = quit_bit st"
  "consecutive_sleeps (snd (get_dimensions h hook st)) = consecutive_sleeps st"
proof -
  obtain out p1 where c: "call_hook_safe h ''get_dimensions'' hook st = (out, p1)"
    by (cases "call_hook_safe h ''get_dimensions'' hook st")
  with call_hook_safe_loop [of h "''get_dimensions''" hook st]
  have q: "quit_bit p1 = quit_bit st" "consecutive_sleeps p1 = consecutive_sleeps st" by simp_all
  show "quit_bit (snd (get_dimensions h hook st)) = quit_bit st"
    using c q by (cases out) (simp_all add: get_dimensions_def Let_def split: sum.splits)
  show "consecutive_sleeps (snd (get_dimensions h hook st)) = consecutive_sleeps st"
    using c q by (cases out) (simp_all add: get_dimensions_def Let_def split: sum.splits)
qed

lemma quarantine_state_loop:
  "quit_bit (snd (quarantine_state h d (st::bot_loop))) = quit_bit st"
  "consecutive_sleeps (snd (quarantine_state h d st)) = consecutive_sleeps st"
  by (simp_all add: quarantine_state_def Let_def split: option.splits)

lemma disk_quarantine_loop:
  "quit_bit (snd (disk_quarantine h sh d (st::bot_loop))) = quit_bit st"
  "consecutive_sleeps (snd (disk_quarantine h sh d st)) = consecutive_sleeps st"
  using call_hook_safe_loop [of h "''get_settings''" sh st]
  by (simp_all add: disk_quarantine_def Let_def case_prod_beta split: sum.splits)

lemma get_state_loop:
  "quit_bit (snd (get_state h hook sh n (st::bot_loop))) = quit_bit st"
  "consecutive_sleeps (snd (get_state h hook sh n st)) = consecutive_sleeps st"
proof -
  obtain out p1 where c: "call_hook_safe h ''get_state'' hook st = (out, p1)"
    by (cases "call_hook_safe h ''get_state'' hook st")
  with call_hook_safe_loop [of h "''get_state''" hook st]
  have q: "quit_bit p1 = quit_bit st" "consecutive_sleeps p1 = consecutive_sleeps st" by simp_all
  show "quit_bit (snd (get_state h hook sh n st)) = quit_bit st"
    using c q quarantine_state_loop(1) [of h _ p1]
    by (cases out) (simp_all add: get_state_def Let_def case_prod_beta disk_quarantine_loop)
  show "consecutive_sleeps (snd (get_state h hook sh n st)) = consecutive_sleeps st"
    using c q quarantine_state_loop(2) [of h _ p1]
    by (cases out) (simp_all add: get_state_def Let_def case_prod_beta disk_quarantine_loop)
qed

lemma disk_quarantine_sleep_streak:
  "disk_quarantine h sh d p = (Inr st, p') \<Longrightarrow>
     py_get st ''sleep_streak'' dflt = py_get d ''sleep_streak'' dflt"
  by (auto simp: disk_quarantine_def Let_def py_get_update case_prod_beta
      split: if_splits sum.splits)

lemma get_state_sleep_streak:
  assumes "get_state h hook sh n p = (Inr st, p')"
  shows "py_get st ''sleep_streak'' d = PInt n"
proof -
  obtain out p1 where c: "call_hook_safe h ''get_state'' hook p = (out, p1)"
    by (cases "call_hook_safe h ''get_state'' hook p")
  show ?thesis
  proof (cases out)
    case (PDict d0)
    obtain d1 p2 where m: "quarantine_state h d0 p1 = (d1, p2)"
      by (cases "quarantine_state h d0 p1")
    from assms c PDict m
    have "disk_quarantine h sh (AList.update ''sleep_streak'' (PInt n) d1) p2 = (Inr st, p')"
      by (simp add: get_state_def Let_def)
    from disk_quarantine_sleep_streak [OF this, of d] show ?thesis
      by (simp add: py_get_update)
  qed (use assms c in \<open>simp_all add: get_state_def Let_def\<close>)
qed

lemma refresh_loop:
  assumes "refresh it st = (r, st1)"
  shows "quit_bit st1 = quit_bit st" and "consecutive_sleeps st1 = consecutive_sleeps st"
    and "r = Returns () \<Longrightarrow>
           py_get (bot_state st1) ''sleep_streak'' d = PInt (consecutive_sleeps st)"
proof -
  obtain dims s1 where g: "get_dimensions (it_host it) (dimensions_hook it) st = (dims, s1)"
    by (cases "get_dimensions (it_host it) (dimensions_hook it) st")
  obtain states s2 where
    t: "get_state (it_host it) (state_hook it) (settings_hook it) (consecutive_sleeps s1) s1
          = (states, s2)"
    by (cases "get_state (it_host it) (state_hook it) (settings_hook it)
                 (consecutive_sleeps s1) s1")
  from g get_dimensions_loop [of "it_host it" "dimensions_hook it" st]
  have s1: "quit_bit s1 = quit_bit st" "consecutive_sleeps s1 = consecutive_sleeps st"
    by simp_all
  from t get_state_loop [of "it_host it" "state_hook it" "settings_hook it"
      "consecutive_sleeps s1" s1]
  have s2: "quit_bit s2 = quit_bit s1" "consecutive_sleeps s2 = consecutive_sleeps s1"
    by simp_all
  show "quit_bit st1 = quit_bit st"
    using assms g t s1 s2 by (auto simp: refresh_def split: sum.splits)
  show "consecutive_sleeps st1 = consecutive_sleeps st"
    using assms g t s1 s2 by (auto simp: refresh_def split: sum.splits)
  show "py_get (bot_state st1) ''sleep_streak'' d = PInt (consecutive_sleeps st)"
    if "r = Returns ()"
    using that assms g t s1 get_state_sleep_streak [of "it_host it" "state_hook it"
        "settings_hook it" "consecutive_sleeps s1" s1 _ s2 d]
    by (auto simp: refresh_def split: sum.splits)
qed

lemma poll_delay_bounds: "poll_delay v = Some d \<Longrightarrow> 1 \<le> d \<and> d \<le> 60"
  by (cases v) (auto split: if_splits)

lemma poll_server_poll_error:
  assumes "poll_outcome it = Raises (PollError e)"
    and "py_get (bot_state st) ''sleep_streak'' (PInt 10) = PInt n"
  shows "poll_server it st = (Returns False, wait (PInt (max 1 (min 60 (n * 2)))) it st)"
  using assms by (simp add: poll_server_def)

lemma poll_server_quit_bit:
  assumes "poll_server it st = (r, st')" and "\<not> quit_bit st" and "\<not> stop_signal it"
    and "\<forall>v. poll_outcome it \<noteq> Returns (''terminate'', v)"
  shows "\<not> quit_bit st'"
proof (cases "poll_outcome it")
  case (Raises x)
  with assms(1-3) show ?thesis
    by (cases x) (auto simp: poll_server_def wait_def split: option.splits)
next
  case (Returns cv)
  obtain cmd v where cv: "cv = (cmd, v)" by (cases cv)
  have nt: "cmd \<noteq> ''terminate''" using assms(4) Returns cv by auto
  obtain r1 s1 where h: "call_hook_safe (it_host it) ''on_bot_idle'' (on_bot_idle it) st = (r1, s1)"
    by (cases "call_hook_safe (it_host it) ''on_bot_idle'' (on_bot_idle it) st")
  with call_hook_safe_loop(1) [of "it_host it" "''on_bot_idle''" "on_bot_idle it" st]
  have "quit_bit s1 = quit_bit st" by simp
  with assms(1-3) Returns cv nt h show ?thesis
    by (auto simp: poll_server_def wait_def split: if_splits outcome.splits)
qed

lemma loop_body_quit_bit:
  assumes "loop_body it st = (r, st')" and "\<not> quit_bit st" and "\<not> stop_signal it"
    and "\<forall>v. poll_outcome it \<noteq> Returns (''terminate'', v)"
  shows "\<not> quit_bit st'"
proof -
  obtain r1 s1 where f: "refresh it st = (r1, s1)" by (cases "refresh it st")
  from refresh_loop(1) [OF f] assms(2) have q1: "\<not> quit_bit s1" by simp
  show ?thesis
  proof (cases r1)
    case (Raises x)
    with assms(1) f q1 show ?thesis by (simp add: loop_body_def)
  next
    case (Returns u)
    obtain r2 s2 where p: "poll_server it s1 = (r2, s2)" by (cases "poll_server it s1")
    from poll_server_quit_bit [OF p q1 assms(3,4)] have "\<not> quit_bit s2" .
    with assms(1) f Returns p show ?thesis
      by (cases r2) (auto simp: loop_body_def split: if_splits)
  qed
qed

lemma example_refresh:
  "refresh (example_iteration polled) example_loop =
     (Returns (),
      example_loop\<lparr>bot_dimensions := [(''id'', PList [PStr ''bot1''])],
                   bot_state := [(''cost_usd_hour'', PInt 1), (''sleep_streak'', PInt 3)]\<rparr>)"
  by (simp add: refresh_def example_iteration_def example_loop_def get_dimensions_def
        get_state_def quarantine_state_def disk_quarantine_def call_hook_safe_def
        example_host_def py_get_def Let_def)

lemma example_unknown_command:
  "loop_body (example_iteration (Returns (''dance'', PNone))) example_loop =
     (Raises (Exception ''ValueError''),
      example_loop\<lparr>bot_dimensions := [(''id'', PList [PStr ''bot1''])],
                   bot_state := [(''cost_usd_hour'', PInt 1), (''sleep_streak'', PInt 3)]\<rparr>)"
  by (simp add: loop_body_def example_refresh poll_server_def)
     (simp add: example_iteration_def)

text \<open>
  C9. In a turn of the main loop during which no stop signal arrives: when the poll
  fails with \<open>PollError\<close> (no usable response from the server), the bot waits between 1
  and 60 seconds and the loop goes on to its next turn with \<open>quit_bit\<close> unset; and when
  anything in the turn raises an \<open>Exception\<close> (an unknown command among them), unless
  the server's command was \<open>terminate\<close>, the bot posts the error, waits 10 seconds and
  the loop goes on to its next turn. In neither case does an exception leave
  \<open>_run_bot\<close>.
\<close>

theorem bot_keeps_polling:
  assumes "\<not> quit_bit st" and "\<not> stop_signal it"
  shows "(\<forall>st1 e. refresh it st = (Returns (), st1) \<and> poll_outcome it = Raises (PollError e)
           \<longrightarrow> (\<exists>delay st'. 1 \<le> delay \<and> delay \<le> 60
                  \<and> run_bot_step it st = (Returns (), st')
                  \<and> actions st' = actions st1 @ [Wait (PInt delay)]
                  \<and> consecutive_sleeps st' = consecutive_sleeps st + 1
                  \<and> \<not> quit_bit st'
                  \<and> run_bot_loop (it # its) st = run_bot_loop its st'))
     \<and> (\<forall>st1 x. loop_body it st = (Raises x, st1) \<and> is_Exception x
           \<and> (\<forall>v. poll_outcome it \<noteq> Returns (''terminate'', v))
           \<longrightarrow> (\<exists>msg st'. run_bot_step it st = (Returns (), st')
                  \<and> actions st' = actions st1 @ [Post_error msg, Wait (PInt 10)]
                  \<and> consecutive_sleeps st' = 0
                  \<and> \<not> quit_bit st'
                  \<and> run_bot_loop (it # its) st = run_bot_loop its st'))"
proof (intro conjI allI impI)
  fix st1 e
  assume a: "refresh it st = (Returns (), st1) \<and> poll_outcome it = Raises (PollError e)"
  then have f: "refresh it st = (Returns (), st1)"
    and pe: "poll_outcome it = Raises (PollError e)" by simp_all
  let ?d = "max 1 (min 60 (consecutive_sleeps st * 2))"
  let ?st' = "(wait (PInt ?d) it st1)\<lparr>consecutive_sleeps := consecutive_sleeps st1 + 1\<rparr>"
  from refresh_loop [OF f]
  have q1: "quit_bit st1 = quit_bit st" and c1: "consecutive_sleeps st1 = consecutive_sleeps st"
    and s1: "py_get (bot_state st1) ''sleep_streak'' (PInt 10) = PInt (consecutive_sleeps st)"
    by simp_all
  have ps: "poll_server it st1 = (Returns False, wait (PInt ?d) it st1)"
    by (rule poll_server_poll_error [OF pe s1])
  have body: "loop_body it st = (Returns (), ?st')"
    using f ps by (simp add: loop_body_def wait_def)
  have step: "run_bot_step it st = (Returns (), ?st')"
    using body assms(2) by (simp add: run_bot_step_def wait_def)
  have nq: "\<not> quit_bit ?st'" using q1 assms by (simp add: wait_def)
  have loop: "run_bot_loop (it # its) st = run_bot_loop its ?st'"
    using assms(1) step by simp
  show "\<exists>delay st'. 1 \<le> delay \<and> delay \<le> 60
                  \<and> run_bot_step it st = (Returns (), st')
                  \<and> actions st' = actions st1 @ [Wait (PInt delay)]
                  \<and> consecutive_sleeps st' = consecutive_sleeps st + 1
                  \<and> \<not> quit_bit st'
                  \<and> run_bot_loop (it # its) st = run_bot_loop its st'"
    using step nq loop c1
    by (intro exI [of _ ?d] exI [of _ ?st']) (simp add: wait_def)
next
  fix st1 x
  assume a: "loop_body it st = (Raises x, st1) \<and> is_Exception x
           \<and> (\<forall>v. poll_outcome it \<noteq> Returns (''terminate'', v))"
  then have body: "loop_body it st = (Raises x, st1)" and ex: "is_Exception x"
    and nt: "\<forall>v. poll_outcome it \<noteq> Returns (''terminate'', v)" by simp_all
  let ?msg = "exn_text x @ [CHR 0x0A] @ traceback (it_host it)"
  let ?st' = "wait (PInt 10) it
                (st1\<lparr>actions := actions st1 @ [Post_error ?msg], consecutive_sleeps := 0\<rparr>)"
  from loop_body_quit_bit [OF body assms nt] have q1: "\<not> quit_bit st1" .
  have step: "run_bot_step it st = (Returns (), ?st')"
    using body ex by (simp add: run_bot_step_def Let_def)
  have nq: "\<not> quit_bit ?st'" using q1 assms(2) by (simp add: wait_def)
  have loop: "run_bot_loop (it # its) st = run_bot_loop its ?st'"
    using assms(1) step by simp
  show "\<exists>msg st'. run_bot_step it st = (Returns (), st')
                  \<and> actions st' = actions st1 @ [Post_error msg, Wait (PInt 10)]
                  \<and> consecutive_sleeps st' = 0
                  \<and> \<not> quit_bit st'
                  \<and> run_bot_loop (it # its) st = run_bot_loop its st'"
    using step nq loop
    by (intro exI [of _ ?msg] exI [of _ ?st']) (simp add: wait_def)
qed

theorem bot_keeps_polling_witness:
  "\<not> quit_bit example_loop
   \<and> \<not> stop_signal (example_iteration (Raises (PollError ''HTTP 500'')))
   \<and> poll_outcome (example_iteration (Raises (PollError ''HTTP 500'')))
       = Raises (PollError ''HTTP 500'')
   \<and> (\<exists>delay st'. 1 \<le> delay \<and> delay \<le> 60
         \<and> run_bot_step (example_iteration (Raises (PollError ''HTTP 500''))) example_loop
             = (Returns (), st')
         \<and> actions st' = [Wait (PInt delay)]
         \<and> run_bot_loop [example_iteration (Raises (PollError ''HTTP 500''))] example_loop
             = Polling st')
   \<and> is_Exception (Exception ''ValueError'')
   \<and> (\<exists>msg st'. run_bot_step (example_iteration (Returns (''dance'', PNone))) example_loop
             = (Returns (), st')
         \<and> actions st' = [Post_error msg, Wait (PInt 10)]
         \<and> run_bot_loop [example_iteration (Returns (''dance'', PNone))] example_loop
             = Polling st')"
proof -
  let ?fail = "example_iteration (Raises (PollError ''HTTP 500''))"
  let ?odd = "example_iteration (Returns (''dance'', PNone))"
  let ?st1 = "example_loop\<lparr>bot_dimensions := [(''id'', PList [PStr ''bot1''])],
                   bot_state := [(''cost_usd_hour'', PInt 1), (''sleep_streak'', PInt 3)]\<rparr>"
  have h1: "\<not> quit_bit example_loop" by (simp add: example_loop_def)
  have h2: "\<not> stop_signal ?fail" "\<not> stop_signal ?odd" by (simp_all add: example_iteration_def)
  have h3: "poll_outcome ?fail = Raises (PollError ''HTTP 500'')"
    by (simp add: example_iteration_def)
  have h4: "\<forall>v. poll_outcome ?odd \<noteq> Returns (''terminate'', v)"
    by (simp add: example_iteration_def)
  have a1: "actions ?st1 = []" by (simp add: example_loop_def)
  have p1: "refresh ?fail example_loop = (Returns (), ?st1)
              \<and> poll_outcome ?fail = Raises (PollError ''HTTP 500'')"
    using example_refresh [of "Raises (PollError ''HTTP 500'')"] h3 by simp
  from bot_keeps_polling [OF h1 h2(1), of "[]"]
  have "\<forall>st1 e. refresh ?fail example_loop = (Returns (), st1)
              \<and> poll_outcome ?fail = Raises (PollError e)
           \<longrightarrow> (\<exists>delay st'. 1 \<le> delay \<and> delay \<le> 60
                  \<and> run_bot_step ?fail example_loop = (Returns (), st')
                  \<and> actions st' = actions st1 @ [Wait (PInt delay)]
                  \<and> consecutive_sleeps st' = consecutive_sleeps example_loop + 1
                  \<and> \<not> quit_bit st'
                  \<and> run_bot_loop [?fail] example_loop = run_bot_loop [] st')"
    by (rule conjunct1)
  from this [THEN spec, THEN spec, THEN mp, OF p1]
  obtain delay st' where
    "1 \<le> delay" "delay \<le> 60" "run_bot_step ?fail example_loop = (Returns (), st')"
    "actions st' = actions ?st1 @ [Wait (PInt delay)]" "\<not> quit_bit st'"
    "run_bot_loop [?fail] example_loop = run_bot_loop [] st'"
    by blast
  then have first: "\<exists>delay st'. 1 \<le> delay \<and> delay \<le> 60
         \<and> run_bot_step ?fail example_loop = (Returns (), st')
         \<and> actions st' = [Wait (PInt delay)]
         \<and> run_bot_loop [?fail] example_loop = Polling st'"
    using a1 by auto
  have p2: "loop_body ?odd example_loop = (Raises (Exception ''ValueError''), ?st1)
              \<and> is_Exception (Exception ''ValueError'')
              \<and> (\<forall>v. poll_outcome ?odd \<noteq> Returns (''terminate'', v))"
    using example_unknown_command h4 by simp
  from bot_keeps_polling [OF h1 h2(2), of "[]"]
  have "\<forall>st1 x. loop_body ?odd example_loop = (Raises x, st1) \<and> is_Exception x
           \<and> (\<forall>v. poll_outcome ?odd \<noteq> Returns (''terminate'', v))
           \<longrightarrow> (\<exists>msg st'. run_bot_step ?odd example_loop = (Returns (), st')
                  \<and> actions st' = actions st1 @ [Post_error msg, Wait (PInt 10)]
                  \<and> consecutive_sleeps st' = 0
                  \<and> \<not> quit_bit st'
                  \<and> run_bot_loop [?odd] example_loop = run_bot_loop [] st')"
    by (rule conjunct2)
  from this [THEN spec, THEN spec, THEN mp, OF p2]
  obtain msg st'' where
    "run_bot_step ?odd example_loop = (Returns (), st'')"
    "actions st'' = actions ?st1 @ [Post_error msg, Wait (PInt 10)]" "\<not> quit_bit st''"
    "run_bot_loop [?odd] example_loop = run_bot_loop [] st''"
    by blast
  then have second: "\<exists>msg st'. run_bot_step ?odd example_loop = (Returns (), st')
         \<and> actions st' = [Post_error msg, Wait (PInt 10)]
         \<and> run_bot_loop [?odd] example_loop = Polling st'"
    using a1 by auto
  from h1 h2(1) h3 first second show ?thesis by simp
qed

subsection \<open>The bot: quarantine over a whole process\<close>

lemma process_grows_refl: "process_grows p p"
  by (simp add: process_grows_def)

lemma process_grows_trans:
  "process_grows p p1 \<Longrightarrow> process_grows p1 p2 \<Longrightarrow> process_grows p p2"
  by (auto simp: process_grows_def)

lemma process_grows_fields:
  assumes g: "process_grows p p1"
    and q: "QUARANTINED p2 = QUARANTINED p1"
    and l: "set_quarantined_log p2 = set_quarantined_log p1"
  shows "process_grows p p2"
proof -
  have "first_reason_kept p2 = first_reason_kept p1"
    unfolding first_reason_kept_def q l ..
  with g l show ?thesis by (simp add: process_grows_def)
qed

lemma set_quarantined_grows:
  "reason \<noteq> [] \<Longrightarrow> process_grows p (set_quarantined reason p)"
  by (auto simp: process_grows_def first_reason_kept_def set_quarantined_def
      split: list.splits)

lemma call_hook_safe_grows: "process_grows p (snd (call_hook_safe h n hook p))"
proof (cases hook)
  case (Hook_returns v)
  then show ?thesis by (simp add: call_hook_safe_def process_grows_refl)
next
  case (Hook_throws e)
  let ?msg = "e @ [CHR 0x0A] @ traceback h"
  let ?p1 = "p\<lparr>actions := actions p @
                [Post_error (''Failed to call hook '' @ n @ ''(): '' @ ?msg)]\<rparr>"
  have "process_grows p ?p1"
    by (rule process_grows_fields [OF process_grows_refl]) simp_all
  moreover have "process_grows ?p1 (set_quarantined ?msg ?p1)"
    by (rule set_quarantined_grows) simp
  ultimately have "process_grows p (set_quarantined ?msg ?p1)"
    by (rule process_grows_trans)
  with Hook_throws show ?thesis by (simp add: call_hook_safe_def Let_def)
qed

lemma get_dimensions_grows: "process_grows p (snd (get_dimensions h hook p))"
proof -
  obtain out p1 where c: "call_hook_safe h ''get_dimensions'' hook p = (out, p1)"
    by (cases "call_hook_safe h ''get_dimensions'' hook p")
  with call_hook_safe_grows [of p h "''get_dimensions''" hook]
  have g1: "process_grows p p1" by simp
  let ?p2 = "set_quarantined (''get_dimensions(): expected a dict, got '' @ repr h out) p1"
  have "process_grows p1 ?p2" by (rule set_quarantined_grows) simp
  with g1 have g2: "process_grows p ?p2" by (rule process_grows_trans)
  show ?thesis
    using c g1 g2
    by (cases out) (simp_all add: get_dimensions_def Let_def split: sum.splits)
qed

lemma quarantine_state_grows: "process_grows p (snd (quarantine_state h d p))"
proof -
  let ?p1 = "set_quarantined (''Can'' @ [CHR 0x27] @ ''t run from blacklisted directory'') p"
  have "process_grows p ?p1" by (rule set_quarantined_grows) simp
  then show ?thesis
    by (simp add: quarantine_state_def Let_def process_grows_refl split: option.splits)
qed

lemma disk_quarantine_grows: "process_grows p (snd (disk_quarantine h sh d p))"
  using call_hook_safe_grows [of p h "''get_settings''" sh]
  by (simp add: disk_quarantine_def Let_def case_prod_beta process_grows_refl
      split: sum.splits)

lemma get_state_grows: "process_grows p (snd (get_state h hook sh n p))"
proof -
  obtain out p1 where c: "call_hook_safe h ''get_state'' hook p = (out, p1)"
    by (cases "call_hook_safe h ''get_state'' hook p")
  with call_hook_safe_grows [of p h "''get_state''" hook]
  have g1: "process_grows p p1" by simp
  let ?p2 = "set_quarantined (''get_state(): expected a dict, got '' @ repr h out) p1"
  have "process_grows p1 ?p2" by (rule set_quarantined_grows) simp
  with g1 have g2: "process_grows p ?p2" by (rule process_grows_trans)
  have g3: "process_grows p (snd (disk_quarantine h sh d' (snd (quarantine_state h d p1))))"
    for d d'
    by (rule process_grows_trans [OF g1
          process_grows_trans [OF quarantine_state_grows disk_quarantine_grows]])
  show ?thesis
    using c g2 g3
    by (cases out) (simp_all add: get_state_def Let_def case_prod_beta)
qed

lemma register_extra_bot_config_grows:
  "process_grows p (register_extra_bot_config c p)"
  by (cases c)
     (simp_all add: register_extra_bot_config_def process_grows_refl set_quarantined_grows)

lemma wait_grows: "process_grows st st1 \<Longrightarrow> process_grows st (wait d it st1)"
  by (erule process_grows_fields) (simp_all add: wait_def)

lemma poll_server_grows: "process_grows st (snd (poll_server it st))"
proof (cases "poll_outcome it")
  case (Raises x)
  then show ?thesis
    by (cases x)
       (auto simp: poll_server_def process_grows_refl wait_grows split: option.splits)
next
  case (Returns cv)
  obtain cmd v where cv: "cv = (cmd, v)" by (cases cv)
  obtain r1 s1 where h: "call_hook_safe (it_host it) ''on_bot_idle'' (on_bot_idle it) st = (r1, s1)"
    by (cases "call_hook_safe (it_host it) ''on_bot_idle'' (on_bot_idle it) st")
  with call_hook_safe_grows [of st "it_host it" "''on_bot_idle''" "on_bot_idle it"]
  have g1: "process_grows st s1" by simp
  have g2: "process_grows st
      (st\<lparr>actions := actions st @ [Post_task_update v], quit_bit := True\<rparr>)"
    by (rule process_grows_fields [OF process_grows_refl]) simp_all
  have g3: "process_grows st (wait v it s1)" using g1 by (rule wait_grows)
  show ?thesis
  proof (cases "cmd = ''sleep''")
    case True
    with Returns cv h g3 show ?thesis by (simp add: poll_server_def)
  next
    case ns: False
    show ?thesis
    proof (cases "cmd = ''terminate''")
      case True
      with Returns cv ns g2 show ?thesis
        by (cases "post_task_update it"; cases "case post_task_update it of Raises x \<Rightarrow> x")
           (simp_all add: poll_server_def)
    next
      case nt: False
      with Returns cv ns show ?thesis
        by (simp add: poll_server_def process_grows_refl split: outcome.splits)
    qed
  qed
qed

lemma refresh_grows: "process_grows st (snd (refresh it st))"
proof -
  obtain dims s1 where g: "get_dimensions (it_host it) (dimensions_hook it) st = (dims, s1)"
    by (cases "get_dimensions (it_host it) (dimensions_hook it) st")
  obtain states s2 where
    t: "get_state (it_host it) (state_hook it) (settings_hook it) (consecutive_sleeps s1) s1
          = (states, s2)"
    by (cases "get_state (it_host it) (state_hook it) (settings_hook it)
                 (consecutive_sleeps s1) s1")
  from g get_dimensions_grows [of st "it_host it" "dimensions_hook it"]
  have "process_grows st s1" by simp
  moreover from t get_state_grows [of s1 "it_host it" "state_hook it" "settings_hook it"
      "consecutive_sleeps s1"]
  have "process_grows s1 s2" by simp
  ultimately have g2: "process_grows st s2" by (rule process_grows_trans)
  have "process_grows st (s2\<lparr>bot_dimensions := dims, bot_state := x\<rparr>)" for x
    by (rule process_grows_fields [OF g2]) simp_all
  with g t g2 show ?thesis
    by (cases states) (simp_all add: refresh_def)
qed

lemma loop_body_grows: "process_grows st (snd (loop_body it st))"
proof -
  obtain r1 s1 where f: "refresh it st = (r1, s1)" by (cases "refresh it st")
  with refresh_grows [of st it] have g1: "process_grows st s1" by simp
  obtain r2 s2 where p: "poll_server it s1 = (r2, s2)" by (cases "poll_server it s1")
  with poll_server_grows [of s1 it] have "process_grows s1 s2" by simp
  with g1 have g2: "process_grows st s2" by (rule process_grows_trans)
  have g3: "process_grows st (s2\<lparr>last_action := a, consecutive_sleeps := c\<rparr>)" for a c
    by (rule process_grows_fields [OF g2]) simp_all
  have g4: "process_grows st (s2\<lparr>consecutive_sleeps := c\<rparr>)" for c
    by (rule process_grows_fields [OF g2]) simp_all
  show ?thesis
    using f p g1 g2 g3 g4
    by (cases r1; cases r2) (simp_all add: loop_body_def)
qed

lemma run_bot_step_grows: "process_grows st (snd (run_bot_step it st))"
proof -
  obtain r1 s1 where b: "loop_body it st = (r1, s1)" by (cases "loop_body it st")
  with loop_body_grows [of st it] have g1: "process_grows st s1" by simp
  have g2: "process_grows st (s1\<lparr>quit_bit := q\<rparr>)" for q
    by (rule process_grows_fields [OF g1]) simp_all
  have g3: "process_grows st (wait d it (s1\<lparr>actions := a, consecutive_sleeps := 0\<rparr>))" for d a
    by (rule wait_grows, rule process_grows_fields [OF g1]) simp_all
  show ?thesis
    using b g1 g2 g3
    by (cases r1) (simp_all add: run_bot_step_def Let_def)
qed

lemma run_step_grows: "process_grows p (run_step step p)"
  by (cases step)
     (simp_all add: call_hook_safe_grows get_dimensions_grows get_state_grows
        register_extra_bot_config_grows run_bot_step_grows)

lemma run_steps_grows: "process_grows p (run_steps steps p)"
  unfolding run_steps_def
proof (induction steps arbitrary: p)
  case Nil
  show ?case by (simp add: process_grows_refl)
next
  case (Cons step steps)
  from process_grows_trans [OF run_step_grows Cons.IH]
  show ?case by simp
qed

lemma run_steps_append: "run_steps (steps @ further) p = run_steps further (run_steps steps p)"
  by (simp add: run_steps_def)

lemma refresh_state:
  assumes "refresh it st = (Returns (), st1)"
  shows "\<exists>dims s1 s2. get_dimensions (it_host it) (dimensions_hook it) st = (dims, s1)
           \<and> get_state (it_host it) (state_hook it) (settings_hook it)
                (consecutive_sleeps s1) s1
               = (Inr (bot_state st1), s2)
           \<and> QUARANTINED st1 = QUARANTINED s2
           \<and> set_quarantined_log st1 = set_quarantined_log s2"
proof -
  obtain dims s1 where g: "get_dimensions (it_host it) (dimensions_hook it) st = (dims, s1)"
    by (cases "get_dimensions (it_host it) (dimensions_hook it) st")
  obtain states s2 where
    t: "get_state (it_host it) (state_hook it) (settings_hook it) (consecutive_sleeps s1) s1
          = (states, s2)"
    by (cases "get_state (it_host it) (state_hook it) (settings_hook it)
                 (consecutive_sleeps s1) s1")
  from assms g t show ?thesis
    by (cases states) (auto simp: refresh_def)
qed

text \<open>
  The part of C10 that holds. In a bot process that starts with \<open>_QUARANTINED = None\<close>
  and no call of \<open>_set_quarantined\<close> made, and goes through any steps: once
  \<open>_set_quarantined\<close> has been called, with \<open>reason\<close> the first reason it was ever called
  with, \<open>_QUARANTINED\<close> is that reason (which is not empty) and stays that reason through
  any further steps, whatever \<open>_set_quarantined\<close> is called with later; and every state
  that a later call of \<open>_get_state\<close> returns has a true \<open>quarantined\<close>, in the main loop
  too.
\<close>

lemma first_reason_stays:
  assumes "QUARANTINED p = None" and "set_quarantined_log p = []"
    and "set_quarantined_log (run_steps steps p) = reason # later"
  shows "reason \<noteq> []
     \<and> QUARANTINED (run_steps steps p) = Some reason
     \<and> QUARANTINED (run_steps (steps @ further) p) = Some reason
     \<and> (\<exists>later'. set_quarantined_log (run_steps (steps @ further) p) = reason # later')
     \<and> (\<forall>h hook sh sleep_streak st p'.
          get_state h hook sh sleep_streak (run_steps (steps @ further) p) = (Inr st, p')
          \<longrightarrow> truthy (py_get st ''quarantined'' PNone) \<and> QUARANTINED p' = Some reason)
     \<and> (\<forall>it st1.
          refresh it (run_steps (steps @ further) p) = (Returns (), st1)
          \<longrightarrow> truthy (py_get (bot_state st1) ''quarantined'' PNone)
              \<and> QUARANTINED st1 = Some reason)"
proof -
  let ?q = "run_steps steps p"
  let ?q' = "run_steps (steps @ further) p"
  have kept: "first_reason_kept p"
    using assms(1,2) by (simp add: first_reason_kept_def)
  with run_steps_grows [of p steps] have "first_reason_kept ?q"
    by (simp add: process_grows_def)
  with assms(3) have r: "reason \<noteq> []" and q: "QUARANTINED ?q = Some reason"
    by (simp_all add: first_reason_kept_def)
  from kept run_steps_grows [of p "steps @ further"] have k': "first_reason_kept ?q'"
    by (simp add: process_grows_def)
  from \<open>first_reason_kept ?q\<close> run_steps_grows [of ?q further]
  obtain new where "set_quarantined_log ?q' = set_quarantined_log ?q @ new"
    by (auto simp: process_grows_def run_steps_append)
  with assms(3) have log': "set_quarantined_log ?q' = reason # (later @ new)" by simp
  with k' have q': "QUARANTINED ?q' = Some reason"
    by (simp add: first_reason_kept_def)
  have states: "truthy (py_get st ''quarantined'' PNone) \<and> QUARANTINED p' = Some reason"
    if g: "get_state h hook sh sleep_streak ?q' = (Inr st, p')" for h hook sh sleep_streak st p'
  proof -
    from get_state_kept [OF q' r, of h hook sh sleep_streak] g
    have "QUARANTINED p' = Some reason" by simp
    with get_state_marks [OF q' r g] show ?thesis by simp
  qed
  have polls: "truthy (py_get (bot_state st1) ''quarantined'' PNone)
      \<and> QUARANTINED st1 = Some reason"
    if f: "refresh it ?q' = (Returns (), st1)" for it st1
  proof -
    from refresh_state [OF f] obtain dims s1 s2 where
      g: "get_dimensions (it_host it) (dimensions_hook it) ?q' = (dims, s1)"
      and t: "get_state (it_host it) (state_hook it) (settings_hook it)
                (consecutive_sleeps s1) s1 = (Inr (bot_state st1), s2)"
      and e: "QUARANTINED st1 = QUARANTINED s2" by blast
    from get_dimensions_kept [OF q' r, of "it_host it" "dimensions_hook it"] g
    have q1: "QUARANTINED s1 = Some reason" by simp
    from get_state_kept [OF q1 r, of "it_host it" "state_hook it" "settings_hook it"
        "consecutive_sleeps s1"] t
    have "QUARANTINED s2 = Some reason" by simp
    with get_state_marks [OF q1 r t] e show ?thesis by simp
  qed
  from r q q' log' states polls show ?thesis by blast
qed

lemma get_state_settings_throw:
  assumes "\<not> truthy (py_get d ''quarantined'' PNone)"
    and "QUARANTINED p = None" and "is_base_dir_ok h" and "botobj h"
    and "disk_messages h PNone (AList.update ''sleep_streak'' (PInt n) d) = Inr []"
  shows "get_state h (Hook_returns (PDict d)) (Hook_throws e) n p =
     (Inr (AList.update ''sleep_streak'' (PInt n) d),
      set_quarantined (e @ [CHR 0x0A] @ traceback h)
        (p\<lparr>actions := actions p @
              [Post_error (''Failed to call hook get_settings(): ''
                           @ e @ [CHR 0x0A] @ traceback h)]\<rparr>))"
  using assms
  by (simp add: get_state_def quarantine_state_def disk_quarantine_def call_hook_safe_def
        Let_def py_get_update)

text \<open>
  C10, where the code misses. In a turn of the main loop of a process that is not
  quarantined yet, on a host in good shape (base directory fine, no complaint about the
  disks), where the hooks \<open>get_dimensions\<close> and \<open>get_state\<close> return dicts, the state
  without a true \<open>quarantined\<close>, and the hook \<open>get_settings\<close> throws:
  \<open>_set_quarantined\<close> is called with the text of the exception, which becomes
  \<open>_QUARANTINED\<close>, and yet the state that \<open>_get_state\<close> then returns, which \<open>botobj\<close>
  holds when the server is polled in this turn, has no true \<open>quarantined\<close>.
\<close>

theorem quarantine_misses_one_state:
  assumes "dimensions_hook it = Hook_returns (PDict dims)"
    and "state_hook it = Hook_returns (PDict d)"
    and "\<not> truthy (py_get d ''quarantined'' PNone)"
    and "settings_hook it = Hook_throws e"
    and "QUARANTINED st = None"
    and "is_base_dir_ok (it_host it)" and "botobj (it_host it)"
    and "disk_messages (it_host it) PNone
           (AList.update ''sleep_streak'' (PInt (consecutive_sleeps st)) d) = Inr []"
  shows "\<exists>st1. refresh it st = (Returns (), st1)
     \<and> set_quarantined_log st1
         = set_quarantined_log st @ [e @ [CHR 0x0A] @ traceback (it_host it)]
     \<and> QUARANTINED st1 = Some (e @ [CHR 0x0A] @ traceback (it_host it))
     \<and> bot_state st1 = AList.update ''sleep_streak'' (PInt (consecutive_sleeps st)) d
     \<and> \<not> truthy (py_get (bot_state st1) ''quarantined'' PNone)"
proof -
  have g: "get_dimensions (it_host it) (dimensions_hook it) st = (dims, st)"
    using assms(1) by (simp add: get_dimensions_def call_hook_safe_def)
  note t = get_state_settings_throw [OF assms(3,5,6,7,8), of e]
  show ?thesis
    using g t assms(2,3,4,5)
    by (simp add: refresh_def set_quarantined_def py_get_update)
qed

theorem quarantine_misses_one_state_witness:
  "QUARANTINED example_loop = None
   \<and> settings_hook ((example_iteration (Raises (PollError ''HTTP 500'')))
        \<lparr>settings_hook := Hook_throws ''boom''\<rparr>) = Hook_throws ''boom''
   \<and> (\<exists>st1. refresh ((example_iteration (Raises (PollError ''HTTP 500'')))
                        \<lparr>settings_hook := Hook_throws ''boom''\<rparr>) example_loop
               = (Returns (), st1)
         \<and> set_quarantined_log st1 = [''boom'' @ [CHR 0x0A] @ traceback example_host]
         \<and> QUARANTINED st1 = Some (''boom'' @ [CHR 0x0A] @ traceback example_host)
         \<and> bot_state st1 = [(''cost_usd_hour'', PInt 1), (''sleep_streak'', PInt 3)]
         \<and> py_get (bot_state st1) ''quarantined'' PNone = PNone)"
proof -
  let ?it = "(example_iteration (Raises (PollError ''HTTP 500'')))
               \<lparr>settings_hook := Hook_throws ''boom''\<rparr>"
  have h1: "dimensions_hook ?it = Hook_returns (PDict [(''id'', PList [PStr ''bot1''])])"
    by (simp add: example_iteration_def)
  have h2: "state_hook ?it = Hook_returns (PDict [(''cost_usd_hour'', PInt 1)])"
    by (simp add: example_iteration_def)
  have h3: "\<not> truthy (py_get [(''cost_usd_hour'', PInt 1)] ''quarantined'' PNone)"
    by (simp add: py_get_def)
  have h4: "settings_hook ?it = Hook_throws ''boom''" by simp
  have h5: "QUARANTINED example_loop = None" by (simp add: example_loop_def)
  have host: "it_host ?it = example_host" by (simp add: example_iteration_def)
  have h6: "is_base_dir_ok (it_host ?it)" and h7: "botobj (it_host ?it)"
    unfolding host by (simp_all add: example_host_def)
  have c: "consecutive_sleeps example_loop = 3" and l: "set_quarantined_log example_loop = []"
    by (simp_all add: example_loop_def)
  have h8: "disk_messages (it_host ?it) PNone
           (AList.update ''sleep_streak'' (PInt (consecutive_sleeps example_loop))
              [(''cost_usd_hour'', PInt 1)]) = Inr []"
    unfolding host by (simp add: example_host_def)
  have u: "AList.update ''sleep_streak'' (PInt (consecutive_sleeps example_loop))
             [(''cost_usd_hour'', PInt 1)]
           = [(''cost_usd_hour'', PInt 1), (''sleep_streak'', PInt 3)]"
    unfolding c by simp
  have n: "py_get [(''cost_usd_hour'', PInt 1), (''sleep_streak'', PInt 3)] ''quarantined'' PNone
             = PNone"
    by (simp add: py_get_def)
  note T = quarantine_misses_one_state [OF h1 h2 h3 h4 h5 h6 h7 h8]
  from T obtain st1 where r: "refresh ?it example_loop = (Returns (), st1)"
    and g: "set_quarantined_log st1
       = set_quarantined_log example_loop @ [''boom'' @ [CHR 0x0A] @ traceback (it_host ?it)]"
    and q: "QUARANTINED st1 = Some (''boom'' @ [CHR 0x0A] @ traceback (it_host ?it))"
    and b: "bot_state st1
              = AList.update ''sleep_streak'' (PInt (consecutive_sleeps example_loop))
                  [(''cost_usd_hour'', PInt 1)]"
    by (elim exE conjE)
  have g': "set_quarantined_log st1 = [''boom'' @ [CHR 0x0A] @ traceback example_host]"
    unfolding g host l by simp
  have q': "QUARANTINED st1 = Some (''boom'' @ [CHR 0x0A] @ traceback example_host)"
    unfolding q host ..
  have b': "bot_state st1 = [(''cost_usd_hour'', PInt 1), (''sleep_streak'', PInt 3)]"
    unfolding b u ..
  have n': "py_get (bot_state st1) ''quarantined'' PNone = PNone"
    unfolding b' n ..
  from r g' q' b' n'
  have "\<exists>st1. refresh ?it example_loop = (Returns (), st1)
         \<and> set_quarantined_log st1 = [''boom'' @ [CHR 0x0A] @ traceback example_host]
         \<and> QUARANTINED st1 = Some (''boom'' @ [CHR 0x0A] @ traceback example_host)
         \<and> bot_state st1 = [(''cost_usd_hour'', PInt 1), (''sleep_streak'', PInt 3)]
         \<and> py_get (bot_state st1) ''quarantined'' PNone = PNone"
    by (intro exI [of _ st1] conjI)
  with h5 h4 show ?thesis by (intro conjI)
qed

end
